theory Spec2Isabelle
  imports Main "HOL-Library.Multiset"
begin

section \<open>Values that travel through the handlers\<close>

text \<open>
  \<^verbatim>\<open>request.get_json()\<close> hands the handler a Python value built from the JSON body:
  \<^verbatim>\<open>None\<close>, a bool, an int, a str, a list or a dict. The same kind of value is what
  \<^verbatim>\<open>jsonify\<close> sends back. A dict is kept as an association list in insertion order and
  read with \<open>map_of\<close>. JSON numbers with a fraction are not part of the model, and neither
  is a request that Flask answers itself, before the code of a handler runs (a body that
  is not JSON, a path whose id is not a number).
\<close>

datatype json =
    JNull
  | JBool bool
  | JInt int
  | JStr string
  | JArr "json list"
  | JObj "(string \<times> json) list"

text \<open>
  The exceptions that can reach an \<^verbatim>\<open>except\<close> clause of \<^verbatim>\<open>crud.py\<close>. The first two are
  psycopg2's \<^verbatim>\<open>errors.NotNullViolation\<close> and \<^verbatim>\<open>errors.UniqueViolation\<close>; both are
  subclasses of \<^verbatim>\<open>psycopg2.IntegrityError\<close> (SQLSTATE class 23), and they are the only
  integrity errors the schema of the table can raise.
\<close>

datatype exn =
    NotNullViolation
  | UniqueViolation
  | DataError
  | ProgrammingError
  | OperationalError
  | TypeError
  | AttributeError
  | KeyError
  | ValueError

fun is_IntegrityError :: "exn \<Rightarrow> bool" where
  "is_IntegrityError NotNullViolation = True"
| "is_IntegrityError UniqueViolation = True"
| "is_IntegrityError _ = False"

subsection \<open>Python's operators on these values\<close>

text \<open>\<^verbatim>\<open>not data\<close> is the negation of Python's truth value.\<close>

fun truthy :: "json \<Rightarrow> bool" where
  "truthy JNull = False"
| "truthy (JBool b) = b"
| "truthy (JInt n) = (n \<noteq> 0)"
| "truthy (JStr s) = (s \<noteq> [])"
| "truthy (JArr xs) = (xs \<noteq> [])"
| "truthy (JObj kvs) = (kvs \<noteq> [])"

fun starts_with :: "string \<Rightarrow> string \<Rightarrow> bool" where
  "starts_with [] s = True"
| "starts_with (c # k) [] = False"
| "starts_with (c # k) (d # s) = (c = d \<and> starts_with k s)"

fun contains_str :: "string \<Rightarrow> string \<Rightarrow> bool" where
  "contains_str k [] = (k = [])"
| "contains_str k (c # s) = (starts_with k (c # s) \<or> contains_str k s)"

text \<open>
  \<^verbatim>\<open>key in data\<close>: key membership for a dict, element membership for a list, substring
  for a str, and \<^verbatim>\<open>TypeError\<close> for the values that are not containers.
\<close>

fun py_in :: "string \<Rightarrow> json \<Rightarrow> exn + bool" where
  "py_in k (JObj kvs) = Inr (k \<in> set (map fst kvs))"
| "py_in k (JArr xs) = Inr (JStr k \<in> set xs)"
| "py_in k (JStr s) = Inr (contains_str k s)"
| "py_in k _ = Inl TypeError"

text \<open>\<^verbatim>\<open>data.get(key)\<close>: only a dict has the method.\<close>

fun py_get :: "json \<Rightarrow> string \<Rightarrow> exn + json" where
  "py_get (JObj kvs) k = Inr (case map_of kvs k of None \<Rightarrow> JNull | Some v \<Rightarrow> v)"
| "py_get _ k = Inl AttributeError"

text \<open>\<^verbatim>\<open>data[key]\<close> with a str key.\<close>

fun py_item :: "json \<Rightarrow> string \<Rightarrow> exn + json" where
  "py_item (JObj kvs) k = (case map_of kvs k of None \<Rightarrow> Inl KeyError | Some v \<Rightarrow> Inr v)"
| "py_item _ k = Inl TypeError"

subsection \<open>Decimal text\<close>

text \<open>The digit for a number below ten.\<close>

definition digit_char :: "nat \<Rightarrow> char" where
  "digit_char d = ''0123456789'' ! d"

function str_nat :: "nat \<Rightarrow> string" where
  "str_nat n = (if n < 10 then [digit_char n] else str_nat (n div 10) @ [digit_char (n mod 10)])"
  by pat_completeness auto
termination
  by (relation "measure (\<lambda>n. n)") auto

declare str_nat.simps [simp del]

text \<open>\<^verbatim>\<open>str(n)\<close> of a Python int, and the text PostgreSQL gives an integer.\<close>

definition str_int :: "int \<Rightarrow> string" where
  "str_int i = (if i < 0 then CHR ''-'' # str_nat (nat (- i)) else str_nat (nat i))"

text \<open>\<^verbatim>\<open>"%0wd" % n\<close> for a natural number: at least \<open>w\<close> digits, zeros on the left.\<close>

definition zero_pad :: "nat \<Rightarrow> nat \<Rightarrow> string" where
  "zero_pad w n = replicate (w - length (str_nat n)) CHR ''0'' @ str_nat n"

subsection \<open>Timestamps\<close>

text \<open>
  psycopg2 returns a \<^verbatim>\<open>TIMESTAMP WITH TIME ZONE\<close> as an aware \<^verbatim>\<open>datetime\<close>; \<open>utcoffset\<close>
  is its offset from UTC in seconds.
\<close>

record datetime =
  year :: nat
  month :: nat
  day :: nat
  hour :: nat
  minute :: nat
  second :: nat
  microsecond :: nat
  utcoffset :: int


text \<open>\<^verbatim>\<open>datetime._format_time\<close> with \<^verbatim>\<open>timespec='auto'\<close>.\<close>

definition format_time :: "datetime \<Rightarrow> string" where
  "format_time d =
     zero_pad 2 (hour d) @ '':'' @ zero_pad 2 (minute d) @ '':'' @ zero_pad 2 (second d) @
     (if microsecond d \<noteq> 0 then ''.'' @ zero_pad 6 (microsecond d) else [])"

text \<open>\<^verbatim>\<open>datetime._format_offset\<close>: sign, hours and minutes, seconds only when not zero.\<close>

definition format_offset :: "int \<Rightarrow> string" where
  "format_offset off =
     (let a = nat \<bar>off\<bar>; hh = a div 3600; mm = (a mod 3600) div 60; ss = a mod 60
      in (if off < 0 then ''-'' else ''+'') @ zero_pad 2 hh @ '':'' @ zero_pad 2 mm @
         (if ss \<noteq> 0 then '':'' @ zero_pad 2 ss else []))"

text \<open>\<^verbatim>\<open>datetime.isoformat()\<close>.\<close>

definition isoformat :: "datetime \<Rightarrow> string" where
  "isoformat d =
     zero_pad 4 (year d) @ ''-'' @ zero_pad 2 (month d) @ ''-'' @ zero_pad 2 (day d) @ ''T'' @
     format_time d @ format_offset (utcoffset d)"

section \<open>The students table\<close>

text \<open>
  \<^verbatim>\<open>create_table_if_not_exists\<close> fixes the schema:
  \<^verbatim>\<open>id SERIAL PRIMARY KEY, name VARCHAR(255) NOT NULL, email VARCHAR(255) UNIQUE NOT NULL,
  age INTEGER, course VARCHAR(255), created_at TIMESTAMP WITH TIME ZONE DEFAULT CURRENT_TIMESTAMP\<close>.
  A column that can hold \<^verbatim>\<open>NULL\<close> is an option; \<open>name\<close> and \<open>email\<close> are options too,
  so that \<^verbatim>\<open>NOT NULL\<close> is a check of the statements below and not a property of the type.
\<close>

record row =
  id' :: int
  name :: "string option"
  email :: "string option"
  age :: "int option"
  course :: "string option"
  created_at :: "datetime option"

text \<open>The committed state of the server: the table and the sequence behind \<^verbatim>\<open>SERIAL\<close>.\<close>

record pg =
  rows :: "row list"
  next_id :: int

text \<open>
  What a request finds outside the program: whether \<^verbatim>\<open>psycopg2.connect\<close> succeeds, an
  exception that \<^verbatim>\<open>cur.execute\<close> raises for a reason outside the statement (a lost
  connection, for one), the server's \<^verbatim>\<open>CURRENT_TIMESTAMP\<close>, and three conversions that are
  left open: PostgreSQL's text for an array value, its reading of a text literal as an
  integer, and \<^verbatim>\<open>str(e)\<close> of an exception.
\<close>

record env =
  connect_ok :: bool
  exec_fault :: "exn option"
  now :: datetime
  array_out :: "json list \<Rightarrow> exn + string"
  int4in :: "string \<Rightarrow> exn + int"
  str_exc :: "exn \<Rightarrow> string"

subsection \<open>Binding a parameter to a column\<close>

text \<open>
  A value longer than 255 characters is an error for \<^verbatim>\<open>VARCHAR(255)\<close>, unless only spaces
  are cut off.
\<close>

definition varchar255 :: "string \<Rightarrow> exn + string option" where
  "varchar255 s =
     (if length s \<le> 255 then Inr (Some s)
      else if set (drop 255 s) \<subseteq> {CHR '' ''} then Inr (Some (take 255 s))
      else Inl DataError)"

text \<open>
  psycopg2 writes \<^verbatim>\<open>None\<close> as \<^verbatim>\<open>NULL\<close>, a str as a quoted literal (a NUL character in it
  is a \<^verbatim>\<open>ValueError\<close>), an int as a number, a bool as \<^verbatim>\<open>true\<close> or \<^verbatim>\<open>false\<close>, a list as
  an array (the empty list as the literal \<^verbatim>\<open>'{}'\<close>) and it cannot adapt a dict. Assigned
  to a character column, a number or a boolean is stored as its text.
\<close>

fun to_varchar :: "env \<Rightarrow> json \<Rightarrow> exn + string option" where
  "to_varchar env JNull = Inr None"
| "to_varchar env (JStr s) = (if CHR 0x00 \<in> set s then Inl ValueError else varchar255 s)"
| "to_varchar env (JInt n) = varchar255 (str_int n)"
| "to_varchar env (JBool b) = Inr (Some (if b then ''true'' else ''false''))"
| "to_varchar env (JArr []) = Inr (Some ''{}'')"
| "to_varchar env (JArr (x # xs)) =
     (case array_out env (x # xs) of Inl e \<Rightarrow> Inl e | Inr s \<Rightarrow> varchar255 s)"
| "to_varchar env (JObj kvs) = Inl ProgrammingError"

text \<open>
  Assigned to the \<^verbatim>\<open>INTEGER\<close> column, a number must fit 32 bits, a text literal is read
  by the server, and a boolean or an array has the wrong type.
\<close>

definition int4 :: "int \<Rightarrow> exn + int option" where
  "int4 n = (if - 2147483648 \<le> n \<and> n \<le> 2147483647 then Inr (Some n) else Inl DataError)"

definition int4_text :: "env \<Rightarrow> string \<Rightarrow> exn + int option" where
  "int4_text env s = (case int4in env s of Inl e \<Rightarrow> Inl e | Inr n \<Rightarrow> int4 n)"

fun to_integer :: "env \<Rightarrow> json \<Rightarrow> exn + int option" where
  "to_integer env JNull = Inr None"
| "to_integer env (JInt n) = int4 n"
| "to_integer env (JStr s) = (if CHR 0x00 \<in> set s then Inl ValueError else int4_text env s)"
| "to_integer env (JBool b) = Inl ProgrammingError"
| "to_integer env (JArr []) = int4_text env ''{}''"
| "to_integer env (JArr (x # xs)) =
     (case array_out env (x # xs) of Inl e \<Rightarrow> Inl e | Inr s \<Rightarrow> Inl ProgrammingError)"
| "to_integer env (JObj kvs) = Inl ProgrammingError"

text \<open>
  The parameter of \<^verbatim>\<open>WHERE id = %s\<close>. The handlers bind the integer of the route here;
  no other kind of value reaches this place, and the model refuses it.
\<close>

fun id_param :: "json \<Rightarrow> exn + int" where
  "id_param (JInt n) = Inr n"
| "id_param _ = Inl ProgrammingError"

datatype column = ColName | ColEmail | ColAge | ColCourse

text \<open>One \<^verbatim>\<open>column = %s\<close> of an \<^verbatim>\<open>UPDATE\<close> with its parameter: the change it makes to a row.\<close>

fun bind_column :: "env \<Rightarrow> column \<Rightarrow> json \<Rightarrow> exn + (row \<Rightarrow> row)" where
  "bind_column env ColName v =
     (case to_varchar env v of Inl e \<Rightarrow> Inl e | Inr x \<Rightarrow> Inr (\<lambda>r. r\<lparr>name := x\<rparr>))"
| "bind_column env ColEmail v =
     (case to_varchar env v of Inl e \<Rightarrow> Inl e | Inr x \<Rightarrow> Inr (\<lambda>r. r\<lparr>email := x\<rparr>))"
| "bind_column env ColAge v =
     (case to_integer env v of Inl e \<Rightarrow> Inl e | Inr x \<Rightarrow> Inr (\<lambda>r. r\<lparr>age := x\<rparr>))"
| "bind_column env ColCourse v =
     (case to_varchar env v of Inl e \<Rightarrow> Inl e | Inr x \<Rightarrow> Inr (\<lambda>r. r\<lparr>course := x\<rparr>))"

fun bind_all :: "env \<Rightarrow> (column \<times> json) list \<Rightarrow> exn + (row \<Rightarrow> row)" where
  "bind_all env [] = Inr (\<lambda>r. r)"
| "bind_all env ((col, v) # cvs) =
     (case bind_column env col v of
        Inl e \<Rightarrow> Inl e
      | Inr f \<Rightarrow> (case bind_all env cvs of Inl e \<Rightarrow> Inl e | Inr g \<Rightarrow> Inr (\<lambda>r. g (f r))))"

subsection \<open>The statements of crud.py\<close>

definition insert_sql :: string where
  "insert_sql =
     ''INSERT INTO students (name, email, age, course) VALUES (%s, %s, %s, %s) RETURNING id;''"

definition select_all_sql :: string where
  "select_all_sql =
     ''SELECT id, name, email, age, course, created_at FROM students ORDER BY id;''"

definition select_one_sql :: string where
  "select_one_sql =
     ''SELECT id, name, email, age, course, created_at FROM students WHERE id = %s;''"

definition delete_sql :: string where
  "delete_sql = ''DELETE FROM students WHERE id = %s;''"

text \<open>\<^verbatim>\<open>sep.join(parts)\<close>.\<close>

fun join :: "string \<Rightarrow> string list \<Rightarrow> string" where
  "join sep [] = []"
| "join sep [x] = x"
| "join sep (x # y # ys) = x @ sep @ join sep (y # ys)"

text \<open>
  \<^verbatim>\<open>sql.SQL("UPDATE students SET {} WHERE id = %s").format(sql.SQL(', ').join(map(sql.SQL, query_parts)))\<close>
\<close>

definition update_query :: "string list \<Rightarrow> string" where
  "update_query query_parts =
     ''UPDATE students SET '' @ join '', '' query_parts @ '' WHERE id = %s''"

subsection \<open>Reading an UPDATE statement\<close>

text \<open>
  The server is modelled on the statements the program can send. An \<^verbatim>\<open>UPDATE\<close> is read
  back from its text: the \<^verbatim>\<open>SET\<close> list between the fixed head and tail, cut at
  \<^verbatim>\<open>", "\<close>, each piece one of the four assignments.
\<close>

fun strip_prefix :: "string \<Rightarrow> string \<Rightarrow> string option" where
  "strip_prefix [] s = Some s"
| "strip_prefix (c # p) [] = None"
| "strip_prefix (c # p) (d # s) = (if c = d then strip_prefix p s else None)"

definition strip_suffix :: "string \<Rightarrow> string \<Rightarrow> string option" where
  "strip_suffix p s = map_option rev (strip_prefix (rev p) (rev s))"

fun split_list :: "string \<Rightarrow> string \<Rightarrow> string list" where
  "split_list cur [] = [rev cur]"
| "split_list cur [c] = [rev (c # cur)]"
| "split_list cur (c # d # s) =
     (if c = CHR '','' \<and> d = CHR '' '' then rev cur # split_list [] s
      else split_list (c # cur) (d # s))"

definition clause_column :: "string \<Rightarrow> column option" where
  "clause_column cl =
     map_of [(''name = %s'', ColName), (''email = %s'', ColEmail),
             (''age = %s'', ColAge), (''course = %s'', ColCourse)] cl"

definition parse_update :: "string \<Rightarrow> column list option" where
  "parse_update q =
     (case strip_prefix ''UPDATE students SET '' q of
        None \<Rightarrow> None
      | Some r \<Rightarrow>
          (case strip_suffix '' WHERE id = %s'' r of
             None \<Rightarrow> None
           | Some set_list \<Rightarrow> those (map clause_column (split_list [] set_list))))"

section \<open>A connection and its transaction\<close>

text \<open>
  A psycopg2 connection opens a transaction at the first statement. \<open>txn_rows\<close> is the
  table as the open transaction sees it, \<open>saved_rows\<close> the committed table, \<open>seq\<close> the
  sequence (it is not transactional: a value taken is never given back) and \<open>calls\<close>
  the calls made on the connection and its cursor, in order.
\<close>

datatype call = Execute string "json list" | Commit | Rollback | Close

record conn =
  txn_rows :: "row list"
  saved_rows :: "row list"
  seq :: int
  calls :: "call list"

definition connect :: "pg \<Rightarrow> conn" where
  "connect db = \<lparr>txn_rows = rows db, saved_rows = rows db, seq = next_id db, calls = []\<rparr>"

definition get_db_connection :: "env \<Rightarrow> pg \<Rightarrow> conn option" where
  "get_db_connection env db = (if connect_ok env then Some (connect db) else None)"

definition commit :: "conn \<Rightarrow> conn" where
  "commit c = c\<lparr>saved_rows := txn_rows c, calls := calls c @ [Commit]\<rparr>"

definition rollback :: "conn \<Rightarrow> conn" where
  "rollback c = c\<lparr>txn_rows := saved_rows c, calls := calls c @ [Rollback]\<rparr>"

text \<open>Closing drops what was not committed; what is left is the server's state.\<close>

definition close :: "conn \<Rightarrow> pg \<times> call list" where
  "close c = (\<lparr>rows = saved_rows c, next_id = seq c\<rparr>, calls c @ [Close])"

record result =
  rowcount :: nat
  fetched :: "row list"

subsection \<open>What each statement does\<close>

text \<open>
  \<^verbatim>\<open>INSERT ... RETURNING id\<close>. The four parameters are bound first. Then the row is built:
  \<^verbatim>\<open>nextval\<close> gives the id (and the sequence moves on even when the row is refused) and
  \<^verbatim>\<open>CURRENT_TIMESTAMP\<close> gives \<open>created_at\<close>. Then the constraints: \<^verbatim>\<open>NOT NULL\<close> on name and
  email, the primary key, and \<^verbatim>\<open>UNIQUE\<close> on email.
\<close>

definition exec_insert :: "env \<Rightarrow> json list \<Rightarrow> conn \<Rightarrow> (exn + result) \<times> conn" where
  "exec_insert env params c =
     (case params of
        [p1, p2, p3, p4] \<Rightarrow>
          (case to_varchar env p1 of Inl e \<Rightarrow> (Inl e, c) | Inr n \<Rightarrow>
          (case to_varchar env p2 of Inl e \<Rightarrow> (Inl e, c) | Inr m \<Rightarrow>
          (case to_integer env p3 of Inl e \<Rightarrow> (Inl e, c) | Inr a \<Rightarrow>
          (case to_varchar env p4 of Inl e \<Rightarrow> (Inl e, c) | Inr k \<Rightarrow>
             if 2147483647 < seq c then (Inl DataError, c)
             else
               (let r = \<lparr>id' = seq c, name = n, email = m, age = a, course = k,
                         created_at = Some (now env)\<rparr>;
                    c' = c\<lparr>seq := seq c + 1\<rparr>
                in if n = None \<or> m = None then (Inl NotNullViolation, c')
                   else if seq c \<in> set (map id' (txn_rows c)) then (Inl UniqueViolation, c')
                   else if m \<in> set (map email (txn_rows c)) then (Inl UniqueViolation, c')
                   else (Inr \<lparr>rowcount = 1, fetched = [r]\<rparr>,
                         c'\<lparr>txn_rows := txn_rows c @ [r]\<rparr>))))))
      | _ \<Rightarrow> (Inl ProgrammingError, c))"

text \<open>\<^verbatim>\<open>SELECT ... ORDER BY id\<close>.\<close>

definition exec_select_all :: "json list \<Rightarrow> conn \<Rightarrow> (exn + result) \<times> conn" where
  "exec_select_all params c =
     (case params of
        [] \<Rightarrow> (Inr \<lparr>rowcount = length (txn_rows c), fetched = sort_key id' (txn_rows c)\<rparr>, c)
      | _ \<Rightarrow> (Inl ProgrammingError, c))"

text \<open>\<^verbatim>\<open>SELECT ... WHERE id = %s\<close>.\<close>

definition exec_select_one :: "json list \<Rightarrow> conn \<Rightarrow> (exn + result) \<times> conn" where
  "exec_select_one params c =
     (case params of
        [p] \<Rightarrow>
          (case id_param p of
             Inl e \<Rightarrow> (Inl e, c)
           | Inr i \<Rightarrow>
               (let found = filter (\<lambda>r. id' r = i) (txn_rows c)
                in (Inr \<lparr>rowcount = length found, fetched = found\<rparr>, c)))
      | _ \<Rightarrow> (Inl ProgrammingError, c))"

text \<open>\<^verbatim>\<open>DELETE FROM students WHERE id = %s\<close>.\<close>

definition exec_delete :: "json list \<Rightarrow> conn \<Rightarrow> (exn + result) \<times> conn" where
  "exec_delete params c =
     (case params of
        [p] \<Rightarrow>
          (case id_param p of
             Inl e \<Rightarrow> (Inl e, c)
           | Inr i \<Rightarrow>
               (Inr \<lparr>rowcount = length (filter (\<lambda>r. id' r = i) (txn_rows c)), fetched = []\<rparr>,
                c\<lparr>txn_rows := filter (\<lambda>r. id' r \<noteq> i) (txn_rows c)\<rparr>))
      | _ \<Rightarrow> (Inl ProgrammingError, c))"

text \<open>
  \<^verbatim>\<open>UPDATE students SET ... WHERE id = %s\<close> with the columns of its \<^verbatim>\<open>SET\<close> list: one
  parameter for each and the id last. The parameters are bound first. The constraints
  are checked on the new version of a row that has the id, so a statement that finds no
  row raises nothing: \<^verbatim>\<open>NOT NULL\<close> on name and email, and \<^verbatim>\<open>UNIQUE\<close> on a new email
  against the other rows. A statement that fails changes nothing.
\<close>

definition exec_update ::
  "env \<Rightarrow> column list \<Rightarrow> json list \<Rightarrow> conn \<Rightarrow> (exn + result) \<times> conn" where
  "exec_update env cols params c =
     (if length params \<noteq> length cols + 1 \<or> \<not> distinct cols then (Inl ProgrammingError, c)
      else
        (case bind_all env (zip cols (butlast params)) of
           Inl e \<Rightarrow> (Inl e, c)
         | Inr f \<Rightarrow>
             (case id_param (last params) of
                Inl e \<Rightarrow> (Inl e, c)
              | Inr i \<Rightarrow>
                  (let targets = filter (\<lambda>r. id' r = i) (txn_rows c);
                       others = filter (\<lambda>r. id' r \<noteq> i) (txn_rows c)
                   in if \<exists>r \<in> set targets. name (f r) = None \<or> email (f r) = None
                      then (Inl NotNullViolation, c)
                      else if ColEmail \<in> set cols \<and>
                              (\<exists>r \<in> set targets. email (f r) \<in> set (map email others))
                      then (Inl UniqueViolation, c)
                      else (Inr \<lparr>rowcount = length targets, fetched = []\<rparr>,
                            c\<lparr>txn_rows :=
                                 map (\<lambda>r. if id' r = i then f r else r) (txn_rows c)\<rparr>)))))"

text \<open>
  \<^verbatim>\<open>cur.execute(query, params)\<close>: the call is recorded, an outside failure is raised
  before the statement has any effect, and otherwise the statement is run. A text that
  is none of the program's statements is a syntax error.
\<close>

definition cur_execute ::
  "env \<Rightarrow> string \<Rightarrow> json list \<Rightarrow> conn \<Rightarrow> (exn + result) \<times> conn" where
  "cur_execute env q params c =
     (let c1 = c\<lparr>calls := calls c @ [Execute q params]\<rparr>
      in case exec_fault env of
           Some e \<Rightarrow> (Inl e, c1)
         | None \<Rightarrow>
             if q = insert_sql then exec_insert env params c1
             else if q = select_all_sql then exec_select_all params c1
             else if q = select_one_sql then exec_select_one params c1
             else if q = delete_sql then exec_delete params c1
             else (case parse_update q of
                     Some cols \<Rightarrow> exec_update env cols params c1
                   | None \<Rightarrow> (Inl ProgrammingError, c1)))"

section \<open>The handlers\<close>

text \<open>
  A handler returns \<^verbatim>\<open>jsonify(body), status\<close> (200 when no status is given), or an
  exception leaves it and Flask answers 500. Each handler is a function of what it
  finds outside, its arguments and the server's state; it gives the response, the
  server's state after the request and the calls made on the connection.
\<close>

datatype response = Response json nat | Unhandled exn

fun status :: "response \<Rightarrow> nat" where
  "status (Response body st) = st"
| "status (Unhandled e) = 500"

definition error_body :: "string \<Rightarrow> json" where
  "error_body msg = JObj [(''error'', JStr msg)]"

definition message_body :: "string \<Rightarrow> json" where
  "message_body msg = JObj [(''message'', JStr msg)]"

text \<open>\<^verbatim>\<open>finally: conn.close()\<close>.\<close>

definition finally_close :: "response \<times> conn \<Rightarrow> response \<times> pg \<times> call list" where
  "finally_close rc = (case rc of (resp, c) \<Rightarrow> (case close c of (db, log) \<Rightarrow> (resp, db, log)))"

text \<open>
  The \<^verbatim>\<open>except\<close> clauses of \<^verbatim>\<open>add_student\<close> and \<^verbatim>\<open>update_student\<close>:
  \<^verbatim>\<open>psycopg2.IntegrityError\<close> first, then \<^verbatim>\<open>Exception\<close>; both roll back.
\<close>

definition write_failure :: "env \<Rightarrow> exn \<Rightarrow> response" where
  "write_failure env e =
     (if is_IntegrityError e
      then Response (error_body ''A student with this email already exists.'') 409
      else Response (error_body (str_exc env e)) 500)"

definition except_write :: "env \<Rightarrow> (exn + response) \<times> conn \<Rightarrow> response \<times> conn" where
  "except_write env rc =
     (case rc of
        (Inr resp, c) \<Rightarrow> (resp, c)
      | (Inl e, c) \<Rightarrow> (write_failure env e, rollback c))"

text \<open>The \<^verbatim>\<open>except Exception\<close> of \<^verbatim>\<open>delete_student\<close>, which rolls back.\<close>

definition except_delete :: "env \<Rightarrow> (exn + response) \<times> conn \<Rightarrow> response \<times> conn" where
  "except_delete env rc =
     (case rc of
        (Inr resp, c) \<Rightarrow> (resp, c)
      | (Inl e, c) \<Rightarrow> (Response (error_body (str_exc env e)) 500, rollback c))"

text \<open>The \<^verbatim>\<open>except Exception\<close> of the two read handlers, which does not.\<close>

definition except_read :: "env \<Rightarrow> (exn + response) \<times> conn \<Rightarrow> response \<times> conn" where
  "except_read env rc =
     (case rc of
        (Inr resp, c) \<Rightarrow> (resp, c)
      | (Inl e, c) \<Rightarrow> (Response (error_body (str_exc env e)) 500, c))"

definition connection_failed :: response where
  "connection_failed = Response (error_body ''Database connection failed'') 500"

subsection \<open>POST /students\<close>

text \<open>\<^verbatim>\<open>not data or 'name' not in data or 'email' not in data\<close>, left to right.\<close>

definition missing_required :: "json \<Rightarrow> exn + bool" where
  "missing_required data =
     (if \<not> truthy data then Inr True
      else (case py_in ''name'' data of
              Inl e \<Rightarrow> Inl e
            | Inr False \<Rightarrow> Inr True
            | Inr True \<Rightarrow>
                (case py_in ''email'' data of Inl e \<Rightarrow> Inl e | Inr b \<Rightarrow> Inr (\<not> b))))"

text \<open>The body of the \<^verbatim>\<open>try\<close>: the insert, the id it returns, the commit.\<close>

definition add_student_try ::
  "env \<Rightarrow> json \<Rightarrow> json \<Rightarrow> json \<Rightarrow> json \<Rightarrow> conn \<Rightarrow> (exn + response) \<times> conn" where
  "add_student_try env name_v email_v age_v course_v c =
     (case cur_execute env insert_sql [name_v, email_v, age_v, course_v] c of
        (Inl e, c1) \<Rightarrow> (Inl e, c1)
      | (Inr res, c1) \<Rightarrow>
          (case fetched res of
             [] \<Rightarrow> (Inl TypeError, c1)
           | r # rest \<Rightarrow>
               (Inr (Response (JObj [(''message'', JStr ''Student added successfully''),
                                     (''id'', JInt (id' r)),
                                     (''name'', name_v),
                                     (''email'', email_v)]) 201),
                commit c1)))"

definition add_student :: "env \<Rightarrow> json \<Rightarrow> pg \<Rightarrow> response \<times> pg \<times> call list" where
  "add_student env data db =
     (case missing_required data of
        Inl e \<Rightarrow> (Unhandled e, db, [])
      | Inr True \<Rightarrow> (Response (error_body ''Name and email are required fields.'') 400, db, [])
      | Inr False \<Rightarrow>
          (case py_get data ''name'' of Inl e \<Rightarrow> (Unhandled e, db, []) | Inr name_v \<Rightarrow>
          (case py_get data ''email'' of Inl e \<Rightarrow> (Unhandled e, db, []) | Inr email_v \<Rightarrow>
          (case py_get data ''age'' of Inl e \<Rightarrow> (Unhandled e, db, []) | Inr age_v \<Rightarrow>
          (case py_get data ''course'' of Inl e \<Rightarrow> (Unhandled e, db, []) | Inr course_v \<Rightarrow>
          (case get_db_connection env db of
             None \<Rightarrow> (connection_failed, db, [])
           | Some c \<Rightarrow>
               finally_close
                 (except_write env (add_student_try env name_v email_v age_v course_v c))))))))"

subsection \<open>GET /students and GET /students/id\<close>

text \<open>
  \<^verbatim>\<open>dict(row)\<close> of a \<^verbatim>\<open>DictCursor\<close> row, with \<open>created_at\<close> replaced by its
  \<^verbatim>\<open>isoformat()\<close> when it is not \<^verbatim>\<open>None\<close>, as \<^verbatim>\<open>jsonify\<close> receives it.
\<close>

definition text_json :: "string option \<Rightarrow> json" where
  "text_json x = (case x of None \<Rightarrow> JNull | Some s \<Rightarrow> JStr s)"

definition int_json :: "int option \<Rightarrow> json" where
  "int_json x = (case x of None \<Rightarrow> JNull | Some n \<Rightarrow> JInt n)"

definition student_dict :: "row \<Rightarrow> json" where
  "student_dict r =
     JObj [(''id'', JInt (id' r)),
           (''name'', text_json (name r)),
           (''email'', text_json (email r)),
           (''age'', int_json (age r)),
           (''course'', text_json (course r)),
           (''created_at'', (case created_at r of None \<Rightarrow> JNull | Some t \<Rightarrow> JStr (isoformat t)))]"

definition get_all_students_try :: "env \<Rightarrow> conn \<Rightarrow> (exn + response) \<times> conn" where
  "get_all_students_try env c =
     (case cur_execute env select_all_sql [] c of
        (Inl e, c1) \<Rightarrow> (Inl e, c1)
      | (Inr res, c1) \<Rightarrow> (Inr (Response (JArr (map student_dict (fetched res))) 200), c1))"

definition get_all_students :: "env \<Rightarrow> pg \<Rightarrow> response \<times> pg \<times> call list" where
  "get_all_students env db =
     (case get_db_connection env db of
        None \<Rightarrow> (connection_failed, db, [])
      | Some c \<Rightarrow> finally_close (except_read env (get_all_students_try env c)))"

definition get_student_try :: "env \<Rightarrow> nat \<Rightarrow> conn \<Rightarrow> (exn + response) \<times> conn" where
  "get_student_try env student_id c =
     (case cur_execute env select_one_sql [JInt (int student_id)] c of
        (Inl e, c1) \<Rightarrow> (Inl e, c1)
      | (Inr res, c1) \<Rightarrow>
          (case fetched res of
             r # rest \<Rightarrow> (Inr (Response (student_dict r) 200), c1)
           | [] \<Rightarrow>
               (Inr (Response (error_body (''Student with ID '' @ str_nat student_id @ '' not found''))
                       404), c1)))"

definition get_student :: "env \<Rightarrow> nat \<Rightarrow> pg \<Rightarrow> response \<times> pg \<times> call list" where
  "get_student env student_id db =
     (case get_db_connection env db of
        None \<Rightarrow> (connection_failed, db, [])
      | Some c \<Rightarrow> finally_close (except_read env (get_student_try env student_id c)))"

subsection \<open>PUT /students/id\<close>

text \<open>
  One of the four \<^verbatim>\<open>if key in data: query_parts.append(clause); params.append(data[key])\<close>.
\<close>

definition add_field ::
  "string \<Rightarrow> string \<Rightarrow> json \<Rightarrow> string list \<times> json list \<Rightarrow> exn + string list \<times> json list" where
  "add_field k clause data acc =
     (case acc of
        (query_parts, params) \<Rightarrow>
          (case py_in k data of
             Inl e \<Rightarrow> Inl e
           | Inr False \<Rightarrow> Inr (query_parts, params)
           | Inr True \<Rightarrow>
               (case py_item data k of
                  Inl e \<Rightarrow> Inl e
                | Inr v \<Rightarrow> Inr (query_parts @ [clause], params @ [v]))))"

definition update_fields :: "json \<Rightarrow> exn + string list \<times> json list" where
  "update_fields data =
     (case add_field ''name'' ''name = %s'' data ([], []) of Inl e \<Rightarrow> Inl e | Inr a1 \<Rightarrow>
     (case add_field ''email'' ''email = %s'' data a1 of Inl e \<Rightarrow> Inl e | Inr a2 \<Rightarrow>
     (case add_field ''age'' ''age = %s'' data a2 of Inl e \<Rightarrow> Inl e | Inr a3 \<Rightarrow>
      add_field ''course'' ''course = %s'' data a3)))"

definition update_student_try :: "env \<Rightarrow> nat \<Rightarrow> json \<Rightarrow> conn \<Rightarrow> (exn + response) \<times> conn" where
  "update_student_try env student_id data c =
     (case update_fields data of
        Inl e \<Rightarrow> (Inl e, c)
      | Inr (query_parts, params) \<Rightarrow>
          if query_parts = []
          then (Inr (Response (error_body ''No valid fields to update.'') 400), c)
          else
            (case cur_execute env (update_query query_parts) (params @ [JInt (int student_id)]) c of
               (Inl e, c1) \<Rightarrow> (Inl e, c1)
             | (Inr res, c1) \<Rightarrow>
                 if rowcount res = 0
                 then (Inr (Response (error_body (''Student with ID '' @ str_nat student_id @
                                                   '' not found.'')) 404),
                       rollback c1)
                 else (Inr (Response (message_body (''Student with ID '' @ str_nat student_id @
                                                     '' updated successfully.'')) 200),
                       commit c1)))"

definition update_student :: "env \<Rightarrow> nat \<Rightarrow> json \<Rightarrow> pg \<Rightarrow> response \<times> pg \<times> call list" where
  "update_student env student_id data db =
     (if \<not> truthy data
      then (Response (error_body ''No data provided for update.'') 400, db, [])
      else (case get_db_connection env db of
              None \<Rightarrow> (connection_failed, db, [])
            | Some c \<Rightarrow>
                finally_close (except_write env (update_student_try env student_id data c))))"

subsection \<open>DELETE /students/id\<close>

definition delete_student_try :: "env \<Rightarrow> nat \<Rightarrow> conn \<Rightarrow> (exn + response) \<times> conn" where
  "delete_student_try env student_id c =
     (case cur_execute env delete_sql [JInt (int student_id)] c of
        (Inl e, c1) \<Rightarrow> (Inl e, c1)
      | (Inr res, c1) \<Rightarrow>
          if rowcount res = 0
          then (Inr (Response (error_body (''Student with ID '' @ str_nat student_id @
                                            '' not found.'')) 404),
                rollback c1)
          else (Inr (Response (message_body (''Student with ID '' @ str_nat student_id @
                                              '' deleted successfully.'')) 200),
                commit c1))"

definition delete_student :: "env \<Rightarrow> nat \<Rightarrow> pg \<Rightarrow> response \<times> pg \<times> call list" where
  "delete_student env student_id db =
     (case get_db_connection env db of
        None \<Rightarrow> (connection_failed, db, [])
      | Some c \<Rightarrow> finally_close (except_delete env (delete_student_try env student_id c)))"

section \<open>The vocabulary of the properties\<close>

subsection \<open>The fields of a body and the statement they ask for\<close>

definition recognized :: "string list" where
  "recognized = [''name'', ''email'', ''age'', ''course'']"

text \<open>The recognized fields a body has, in the order of \<open>recognized\<close>.\<close>

definition supplied :: "(string \<times> json) list \<Rightarrow> string list" where
  "supplied kvs = filter (\<lambda>k. k \<in> set (map fst kvs)) recognized"

definition field_value :: "(string \<times> json) list \<Rightarrow> string \<Rightarrow> json" where
  "field_value kvs k = (case map_of kvs k of None \<Rightarrow> JNull | Some v \<Rightarrow> v)"

text \<open>
  The update statement in the words of the specification: one \<^verbatim>\<open>column = placeholder\<close>
  clause for each recognized field of the body, joined by commas, and the parameters in
  the order of the clauses with the id last.
\<close>

definition spec_update_text :: "(string \<times> json) list \<Rightarrow> string" where
  "spec_update_text kvs =
     ''UPDATE students SET '' @ join '', '' (map (\<lambda>k. k @ '' = %s'') (supplied kvs)) @
     '' WHERE id = %s''"

definition spec_update_params :: "(string \<times> json) list \<Rightarrow> nat \<Rightarrow> json list" where
  "spec_update_params kvs student_id =
     map (field_value kvs) (supplied kvs) @ [JInt (int student_id)]"

definition field_column :: "string \<Rightarrow> column" where
  "field_column k =
     (if k = ''name'' then ColName else if k = ''email'' then ColEmail
      else if k = ''age'' then ColAge else ColCourse)"

text \<open>The columns an update of the body assigns, each with the value bound to it.\<close>

definition bindings :: "(string \<times> json) list \<Rightarrow> (column \<times> json) list" where
  "bindings kvs = map (\<lambda>k. (field_column k, field_value kvs k)) (supplied kvs)"

text \<open>The statements a handler has sent, read off the calls on its connection.\<close>

fun executed :: "call list \<Rightarrow> (string \<times> json list) list" where
  "executed [] = []"
| "executed (Execute q ps # l) = (q, ps) # executed l"
| "executed (Commit # l) = executed l"
| "executed (Rollback # l) = executed l"
| "executed (Close # l) = executed l"

subsection \<open>What an update may change\<close>

text \<open>
  \<open>same_but ks r r'\<close>: the row \<open>r'\<close> is \<open>r\<close> except in the columns named in \<open>ks\<close>; the id
  and \<open>created_at\<close> are never among them. \<open>frame ks i\<close> relates two tables row by row: a
  row with the id \<open>i\<close> may differ in the columns of \<open>ks\<close>, every other row is the same.
\<close>

definition same_but :: "string list \<Rightarrow> row \<Rightarrow> row \<Rightarrow> bool" where
  "same_but ks r r' =
     (id' r' = id' r \<and> created_at r' = created_at r \<and>
      (''name'' \<notin> set ks \<longrightarrow> name r' = name r) \<and>
      (''email'' \<notin> set ks \<longrightarrow> email r' = email r) \<and>
      (''age'' \<notin> set ks \<longrightarrow> age r' = age r) \<and>
      (''course'' \<notin> set ks \<longrightarrow> course r' = course r))"

definition frame :: "string list \<Rightarrow> int \<Rightarrow> row list \<Rightarrow> row list \<Rightarrow> bool" where
  "frame ks i rs rs' = list_all2 (\<lambda>r r'. if id' r = i then same_but ks r r' else r' = r) rs rs'"

subsection \<open>The row count a handler reads\<close>

text \<open>
  \<^verbatim>\<open>cur.rowcount\<close> as \<^verbatim>\<open>update_student\<close> reads it after \<^verbatim>\<open>cur.execute\<close>, and \<open>None\<close> when
  the handler does not get there (no body, no connection, no valid field, or the
  statement raised).
\<close>

definition update_rowcount :: "env \<Rightarrow> nat \<Rightarrow> json \<Rightarrow> pg \<Rightarrow> nat option" where
  "update_rowcount env student_id data db =
     (if \<not> truthy data then None
      else
        (case get_db_connection env db of
           None \<Rightarrow> None
         | Some c \<Rightarrow>
             (case update_fields data of
                Inl e \<Rightarrow> None
              | Inr (query_parts, params) \<Rightarrow>
                  if query_parts = [] then None
                  else
                    (case cur_execute env (update_query query_parts)
                            (params @ [JInt (int student_id)]) c of
                       (Inl e, c1) \<Rightarrow> None
                     | (Inr res, c1) \<Rightarrow> Some (rowcount res)))))"

text \<open>The same for \<^verbatim>\<open>delete_student\<close>.\<close>

definition delete_rowcount :: "env \<Rightarrow> nat \<Rightarrow> pg \<Rightarrow> nat option" where
  "delete_rowcount env student_id db =
     (case get_db_connection env db of
        None \<Rightarrow> None
      | Some c \<Rightarrow>
          (case cur_execute env delete_sql [JInt (int student_id)] c of
             (Inl e, c1) \<Rightarrow> None
           | (Inr res, c1) \<Rightarrow> Some (rowcount res)))"

subsection \<open>Sequences of requests\<close>

datatype request = Post json | GetAll | Get nat | Put nat json | Delete nat

fun handle :: "env \<Rightarrow> request \<Rightarrow> pg \<Rightarrow> response \<times> pg \<times> call list" where
  "handle env (Post data) db = add_student env data db"
| "handle env GetAll db = get_all_students env db"
| "handle env (Get student_id) db = get_student env student_id db"
| "handle env (Put student_id data) db = update_student env student_id data db"
| "handle env (Delete student_id) db = delete_student env student_id db"

text \<open>The server's state after a list of requests, each with what it finds outside.\<close>

fun serve :: "(env \<times> request) list \<Rightarrow> pg \<Rightarrow> pg" where
  "serve [] db = db"
| "serve ((env, rq) # rest) db = serve rest (fst (snd (handle env rq db)))"

text \<open>
  What the primary key and the sequence give: no two rows have the same id, and every id
  was handed out by the sequence before.
\<close>

definition well_formed :: "pg \<Rightarrow> bool" where
  "well_formed db = (distinct (map id' (rows db)) \<and> (\<forall>r \<in> set (rows db). id' r < next_id db))"

subsection \<open>The shape of an ISO 8601 timestamp\<close>





subsection \<open>Named examples\<close>

definition example_time :: datetime where
  "example_time =
     \<lparr>year = 2025, month = 3, day = 9, hour = 14, minute = 5, second = 7,
      microsecond = 12345, utcoffset = 19800\<rparr>"

text \<open>Plain decimal text as an integer: digits, with a minus sign before them or not.\<close>

fun read_nat :: "nat \<Rightarrow> string \<Rightarrow> nat option" where
  "read_nat acc [] = Some acc"
| "read_nat acc (c # s) =
     (case map_of (zip ''0123456789'' [0 ..< 10]) c of
        None \<Rightarrow> None
      | Some d \<Rightarrow> read_nat (10 * acc + d) s)"

definition read_decimal :: "string \<Rightarrow> exn + int" where
  "read_decimal s =
     (case s of
        [] \<Rightarrow> Inl DataError
      | c # rest \<Rightarrow>
          if c = CHR ''-''
          then (case rest of
                  [] \<Rightarrow> Inl DataError
                | d # ds \<Rightarrow>
                    (case read_nat 0 rest of None \<Rightarrow> Inl DataError | Some n \<Rightarrow> Inr (- int n)))
          else (case read_nat 0 s of None \<Rightarrow> Inl DataError | Some n \<Rightarrow> Inr (int n)))"

text \<open>
  A server that can be reached and whose statements fail only for what they say. It
  reads plain decimal text as an integer; an array value is refused, as one choice for
  the conversion the model leaves open.
\<close>

definition example_env :: env where
  "example_env =
     \<lparr>connect_ok = True, exec_fault = None, now = example_time,
      array_out = (\<lambda>xs. Inl ProgrammingError), int4in = read_decimal,
      str_exc = (\<lambda>e. ''error'')\<rparr>"

definition empty_db :: pg where
  "empty_db = \<lparr>rows = [], next_id = 1\<rparr>"

definition alice :: row where
  "alice =
     \<lparr>id' = 1, name = Some ''A'', email = Some ''a@x.com'', age = None, course = None,
      created_at = Some example_time\<rparr>"

definition bob :: row where
  "bob =
     \<lparr>id' = 2, name = Some ''B'', email = Some ''b@x.com'', age = Some 30,
      course = Some ''Math'', created_at = Some example_time\<rparr>"

definition example_db :: pg where
  "example_db = \<lparr>rows = [bob, alice], next_id = 3\<rparr>"

section \<open>The update statement of an object body\<close>

text \<open>
  For a body that is a JSON object, the four tests of \<^verbatim>\<open>update_student\<close> build the
  clauses and parameters of the recognized fields it has, in the fixed order; the text
  they are joined into is read back by the server as the same columns.
\<close>

lemma py_item_in:
  "k \<in> set (map fst kvs) \<Longrightarrow> py_item (JObj kvs) k = Inr (field_value kvs k)"
proof -
  assume "k \<in> set (map fst kvs)"
  then obtain v where "map_of kvs k = Some v"
    by (metis map_of_eq_None_iff not_Some_eq set_map)
  then show ?thesis by (simp add: field_value_def)
qed

lemma add_field_obj:
  "add_field k cl (JObj kvs) (qp, ps) =
     Inr (if k \<in> set (map fst kvs) then (qp @ [cl], ps @ [field_value kvs k]) else (qp, ps))"
  by (simp add: add_field_def py_item_in del: set_map py_item.simps)

lemma update_fields_obj:
  "update_fields (JObj kvs) =
     Inr (map (\<lambda>k. k @ '' = %s'') (supplied kvs), map (field_value kvs) (supplied kvs))"
  by (simp add: update_fields_def add_field_obj supplied_def recognized_def del: set_map)

lemma supplied_flags:
  "supplied kvs =
     (if ''name'' \<in> set (map fst kvs) then [''name''] else []) @
     (if ''email'' \<in> set (map fst kvs) then [''email''] else []) @
     (if ''age'' \<in> set (map fst kvs) then [''age''] else []) @
     (if ''course'' \<in> set (map fst kvs) then [''course''] else [])"
  by (simp add: supplied_def recognized_def del: set_map)

lemma parse_update_flags:
  assumes "b1 \<or> b2 \<or> b3 \<or> b4"
  shows "parse_update (update_query (map (\<lambda>k. k @ '' = %s'')
           ((if b1 then [''name''] else []) @ (if b2 then [''email''] else []) @
            (if b3 then [''age''] else []) @ (if b4 then [''course''] else [])))) =
         Some (map field_column
           ((if b1 then [''name''] else []) @ (if b2 then [''email''] else []) @
            (if b3 then [''age''] else []) @ (if b4 then [''course''] else [])))"
  using assms
  by (cases b1; cases b2; cases b3; cases b4;
      simp add: update_query_def parse_update_def strip_suffix_def clause_column_def
        field_column_def)

lemma parse_update_supplied:
  assumes "supplied kvs \<noteq> []"
  shows "parse_update (update_query (map (\<lambda>k. k @ '' = %s'') (supplied kvs))) =
     Some (map field_column (supplied kvs))"
proof -
  have "''name'' \<in> set (map fst kvs) \<or> ''email'' \<in> set (map fst kvs) \<or>
        ''age'' \<in> set (map fst kvs) \<or> ''course'' \<in> set (map fst kvs)"
    using assms unfolding supplied_flags by (auto split: if_splits)
  from parse_update_flags [OF this] show ?thesis
    unfolding supplied_flags .
qed

lemma update_query_not_others:
  "update_query qp \<noteq> insert_sql" "update_query qp \<noteq> select_all_sql"
  "update_query qp \<noteq> select_one_sql" "update_query qp \<noteq> delete_sql"
  by (simp_all add: update_query_def insert_sql_def select_all_sql_def select_one_sql_def delete_sql_def)

lemma update_query_spec:
  "update_query (map (\<lambda>k. k @ '' = %s'') (supplied kvs)) = spec_update_text kvs"
  by (simp add: update_query_def spec_update_text_def)

lemma distinct_columns: "distinct (map field_column (supplied kvs))"
  by (simp add: supplied_flags field_column_def del: set_map)

lemma column_supplied:
  "(ColName \<in> set (map field_column (supplied kvs))) = (''name'' \<in> set (map fst kvs))"
  "(ColEmail \<in> set (map field_column (supplied kvs))) = (''email'' \<in> set (map fst kvs))"
  "(ColAge \<in> set (map field_column (supplied kvs))) = (''age'' \<in> set (map fst kvs))"
  "(ColCourse \<in> set (map field_column (supplied kvs))) = (''course'' \<in> set (map fst kvs))"
  by (simp_all add: supplied_flags field_column_def del: set_map)

lemma zip_bindings:
  "zip (map field_column (supplied kvs)) (map (field_value kvs) (supplied kvs)) = bindings kvs"
  by (simp add: bindings_def zip_map_map zip_same_conv_map)

lemma cur_execute_update:
  assumes "supplied kvs \<noteq> []"
  shows "cur_execute env (spec_update_text kvs) (spec_update_params kvs student_id) c =
     (case exec_fault env of
        Some e \<Rightarrow>
          (Inl e, c\<lparr>calls := calls c @
             [Execute (spec_update_text kvs) (spec_update_params kvs student_id)]\<rparr>)
      | None \<Rightarrow>
          exec_update env (map field_column (supplied kvs)) (spec_update_params kvs student_id)
            (c\<lparr>calls := calls c @
               [Execute (spec_update_text kvs) (spec_update_params kvs student_id)]\<rparr>))"
  using parse_update_supplied [OF assms] update_query_not_others [of "map (\<lambda>k. k @ '' = %s'') (supplied kvs)"]
  by (simp add: cur_execute_def update_query_spec Let_def split: option.splits)

lemma exec_update_obj:
  "exec_update env (map field_column (supplied kvs)) (spec_update_params kvs student_id) c =
     (case bind_all env (bindings kvs) of
        Inl e \<Rightarrow> (Inl e, c)
      | Inr f \<Rightarrow>
          (let targets = filter (\<lambda>r. id' r = int student_id) (txn_rows c);
               others = filter (\<lambda>r. id' r \<noteq> int student_id) (txn_rows c)
           in if \<exists>r \<in> set targets. name (f r) = None \<or> email (f r) = None
              then (Inl NotNullViolation, c)
              else if ''email'' \<in> set (map fst kvs) \<and>
                      (\<exists>r \<in> set targets. email (f r) \<in> set (map email others))
              then (Inl UniqueViolation, c)
              else (Inr \<lparr>rowcount = length targets, fetched = []\<rparr>,
                    c\<lparr>txn_rows :=
                         map (\<lambda>r. if id' r = int student_id then f r else r) (txn_rows c)\<rparr>)))"
  by (simp add: exec_update_def spec_update_params_def distinct_columns column_supplied
        zip_bindings Let_def del: set_map split: sum.splits cong: if_cong)


lemma bind_column_frame:
  assumes "bind_column env col v = Inr f"
  shows "id' (f r) = id' r \<and> created_at (f r) = created_at r \<and>
         (col \<noteq> ColName \<longrightarrow> name (f r) = name r) \<and>
         (col \<noteq> ColEmail \<longrightarrow> email (f r) = email r) \<and>
         (col \<noteq> ColAge \<longrightarrow> age (f r) = age r) \<and>
         (col \<noteq> ColCourse \<longrightarrow> course (f r) = course r)"
  using assms by (cases col) (auto split: sum.splits)

lemma bind_all_frame:
  "bind_all env cvs = Inr f \<Longrightarrow>
     id' (f r) = id' r \<and> created_at (f r) = created_at r \<and>
     (ColName \<notin> fst ` set cvs \<longrightarrow> name (f r) = name r) \<and>
     (ColEmail \<notin> fst ` set cvs \<longrightarrow> email (f r) = email r) \<and>
     (ColAge \<notin> fst ` set cvs \<longrightarrow> age (f r) = age r) \<and>
     (ColCourse \<notin> fst ` set cvs \<longrightarrow> course (f r) = course r)"
proof (induction cvs arbitrary: f r)
  case Nil
  then show ?case by auto
next
  case (Cons cv cvs)
  obtain col v where cv: "cv = (col, v)" by (cases cv)
  from Cons.prems cv obtain g h where
    g: "bind_column env col v = Inr g" and h: "bind_all env cvs = Inr h" and f: "f = (\<lambda>r. h (g r))"
    by (auto split: sum.splits)
  from bind_column_frame [OF g, of r] Cons.IH [OF h, of "g r"] show ?case
    by (auto simp: f cv)
qed

lemma fst_bindings: "fst ` set (bindings kvs) = set (map field_column (supplied kvs))"
  by (simp add: bindings_def image_image)

lemma bindings_same_but:
  assumes "bind_all env (bindings kvs) = Inr f"
  shows "same_but (map fst kvs) r (f r)"
  using bind_all_frame [OF assms, of r]
  by (simp add: same_but_def fst_bindings column_supplied del: set_map)

lemma frame_refl: "frame ks i rs rs"
  by (simp add: frame_def same_but_def list_all2_same)

lemma frame_map:
  assumes "\<And>r. same_but ks r (f r)"
  shows "frame ks i rs (map (\<lambda>r. if id' r = i then f r else r) rs)"
  using assms by (simp add: frame_def list_all2_map2 list_all2_same)


lemma update_student_obj:
  assumes "supplied kvs \<noteq> []" and "connect_ok env"
  shows "update_student env student_id (JObj kvs) db =
    (let q = spec_update_text kvs; ps = spec_update_params kvs student_id;
         failed = (\<lambda>e. (write_failure env e, db, [Execute q ps, Rollback, Close]))
     in case exec_fault env of
          Some e \<Rightarrow> failed e
        | None \<Rightarrow>
            (case bind_all env (bindings kvs) of
               Inl e \<Rightarrow> failed e
             | Inr f \<Rightarrow>
                 (let targets = filter (\<lambda>r. id' r = int student_id) (rows db);
                      others = filter (\<lambda>r. id' r \<noteq> int student_id) (rows db)
                  in if \<exists>r \<in> set targets. name (f r) = None \<or> email (f r) = None
                     then failed NotNullViolation
                     else if ''email'' \<in> set (map fst kvs) \<and>
                             (\<exists>r \<in> set targets. email (f r) \<in> set (map email others))
                     then failed UniqueViolation
                     else if targets = []
                     then (Response (error_body (''Student with ID '' @ str_nat student_id @
                                                  '' not found.'')) 404,
                           db, [Execute q ps, Rollback, Close])
                     else (Response (message_body (''Student with ID '' @ str_nat student_id @
                                                    '' updated successfully.'')) 200,
                           db\<lparr>rows := map (\<lambda>r. if id' r = int student_id then f r else r)
                                        (rows db)\<rparr>,
                           [Execute q ps, Commit, Close]))))"
proof -
  have kvs: "kvs \<noteq> []" using assms(1) by (auto simp: supplied_def)
  have parts: "map (\<lambda>k. k @ '' = %s'') (supplied kvs) \<noteq> []" using assms(1) by simp
  have ps: "map (field_value kvs) (supplied kvs) @ [JInt (int student_id)] =
            spec_update_params kvs student_id"
    by (simp add: spec_update_params_def)
  have db: "\<lparr>rows = rows db, next_id = next_id db\<rparr> = db" by simp
  note unfold = update_student_def get_db_connection_def update_student_try_def
    update_fields_obj update_query_spec ps cur_execute_update [OF assms(1)] exec_update_obj
    except_write_def finally_close_def close_def commit_def rollback_def connect_def Let_def db
  show ?thesis
  proof (cases "exec_fault env")
    case (Some e)
    then show ?thesis using kvs parts assms(2) by (simp add: unfold del: set_map)
  next
    case None
    show ?thesis
    proof (cases "bind_all env (bindings kvs)")
      case (Inl e)
      then show ?thesis using None kvs parts assms(2) by (simp add: unfold del: set_map)
    next
      case (Inr f)
      let ?targets = "filter (\<lambda>r. id' r = int student_id) (rows db)"
      let ?others = "filter (\<lambda>r. id' r \<noteq> int student_id) (rows db)"
      consider
          (null) "\<exists>r \<in> set ?targets. name (f r) = None \<or> email (f r) = None"
        | (dup) "\<not> (\<exists>r \<in> set ?targets. name (f r) = None \<or> email (f r) = None)"
            "''email'' \<in> set (map fst kvs) \<and>
             (\<exists>r \<in> set ?targets. email (f r) \<in> set (map email ?others))"
        | (ok) "\<not> (\<exists>r \<in> set ?targets. name (f r) = None \<or> email (f r) = None)"
            "\<not> (''email'' \<in> set (map fst kvs) \<and>
             (\<exists>r \<in> set ?targets. email (f r) \<in> set (map email ?others)))"
        by blast
      then show ?thesis
      proof cases
        case null
        then show ?thesis using Inr None kvs parts assms(2)
          by (simp add: unfold del: set_map)
      next
        case dup
        then show ?thesis using Inr None kvs parts assms(2)
          by (simp add: unfold write_failure_def del: set_map)
      next
        case ok
        show ?thesis
        proof (cases "?targets = []")
          case True
          then show ?thesis using ok Inr None kvs parts assms(2)
            by (simp add: unfold del: set_map)
        next
          case False
          then show ?thesis using ok Inr None kvs parts assms(2)
            by (simp add: unfold del: set_map)
        qed
      qed
    qed
  qed
qed

lemma update_student_no_conn:
  "truthy data \<Longrightarrow> \<not> connect_ok env \<Longrightarrow>
   update_student env student_id data db = (connection_failed, db, [])"
  by (simp add: update_student_def get_db_connection_def)

text \<open>
  What an update of an object body with a recognized field comes to, once the connection
  is open: it is refused and nothing changes, or it succeeds and every row with the id
  gets the values that were bound.
\<close>

lemma update_student_outcome:
  assumes fields: "supplied kvs \<noteq> []" and conn: "connect_ok env"
    and run: "update_student env student_id (JObj kvs) db = (resp, db', log)"
  shows "(status resp \<noteq> 200 \<and> db' = db \<and>
          log = [Execute (spec_update_text kvs) (spec_update_params kvs student_id),
                 Rollback, Close]) \<or>
         (status resp = 200 \<and>
          (\<exists>f. bind_all env (bindings kvs) = Inr f \<and>
               db' = db\<lparr>rows := map (\<lambda>r. if id' r = int student_id then f r else r) (rows db)\<rparr> \<and>
               (\<forall>r \<in> set (rows db). id' r = int student_id \<longrightarrow>
                  name (f r) \<noteq> None \<and> email (f r) \<noteq> None)) \<and>
          (\<exists>r \<in> set (rows db). id' r = int student_id) \<and>
          log = [Execute (spec_update_text kvs) (spec_update_params kvs student_id),
                 Commit, Close])"
  using run update_student_obj [OF fields conn, of student_id db]
  by (auto simp: Let_def write_failure_def filter_empty_conv
        split: option.splits sum.splits if_splits)

lemma update_student_no_fields:
  assumes "kvs \<noteq> []" and "supplied kvs = []" and "connect_ok env"
  shows "update_student env student_id (JObj kvs) db =
     (Response (error_body ''No valid fields to update.'') 400, db, [Close])"
  using assms
  by (simp add: update_student_def get_db_connection_def update_student_try_def
        update_fields_obj except_write_def finally_close_def close_def connect_def)

lemma update_student_executed:
  assumes run: "update_student env student_id (JObj kvs) db = (resp, db', log)"
  shows "executed log =
     (if connect_ok env \<and> supplied kvs \<noteq> []
      then [(spec_update_text kvs, spec_update_params kvs student_id)] else [])"
proof -
  consider (empty) "kvs = []" | (down) "kvs \<noteq> []" "\<not> connect_ok env"
    | (none) "kvs \<noteq> []" "connect_ok env" "supplied kvs = []"
    | (some) "connect_ok env" "supplied kvs \<noteq> []"
    by blast
  then show ?thesis
  proof cases
    case empty
    then show ?thesis using run by (auto simp: update_student_def supplied_def)
  next
    case down
    then show ?thesis using run update_student_no_conn [of "JObj kvs" env student_id db]
      by auto
  next
    case none
    then show ?thesis using run update_student_no_fields [of kvs env student_id db] by auto
  next
    case some
    then show ?thesis using update_student_outcome [OF some(2) some(1) run] by auto
  qed
qed

text \<open>Unfolding the handlers and the examples, for running them on concrete requests.\<close>

lemmas handler_defs =
  add_student_def add_student_try_def missing_required_def
  get_all_students_def get_all_students_try_def get_student_def get_student_try_def
  update_student_def update_student_try_def update_fields_def add_field_def
  delete_student_def delete_student_try_def
  get_db_connection_def connect_def commit_def rollback_def close_def finally_close_def
  except_write_def except_delete_def except_read_def write_failure_def connection_failed_def
  error_body_def message_body_def
  cur_execute_def exec_insert_def exec_select_all_def exec_select_one_def exec_delete_def
  exec_update_def parse_update_def strip_suffix_def clause_column_def update_query_def
  insert_sql_def select_all_sql_def select_one_sql_def delete_sql_def
  varchar255_def int4_def int4_text_def Let_def

lemmas example_defs = example_env_def example_db_def empty_db_def alice_def bob_def

section \<open>C1: an update touches only the fields it was given\<close>

text \<open>
  C1. A PUT whose body is an object with at least one of the fields name, email, age,
  course leaves every row with another id as it was, and in a row with the id of the
  route it leaves the id, \<open>created_at\<close> and every column whose field the body does not
  have as they were; this holds whether the update succeeds or is refused. The statement
  it sends, when the connection opens, is the one of the specification: one
  \<^verbatim>\<open>column = %s\<close> clause for each recognized field of the body, joined by commas, with the
  parameters in the order of the clauses and the id last. It sends no other statement.
\<close>

theorem update_changes_only_supplied_fields:
  assumes fields: "supplied kvs \<noteq> []"
    and run: "update_student env student_id (JObj kvs) db = (resp, db', log)"
  shows "frame (map fst kvs) (int student_id) (rows db) (rows db') \<and>
         next_id db' = next_id db \<and>
         executed log =
           (if connect_ok env
            then [(spec_update_text kvs, spec_update_params kvs student_id)] else [])"
proof (cases "connect_ok env")
  case False
  have "truthy (JObj kvs)" using fields by (auto simp: supplied_def)
  from update_student_no_conn [OF this False] run
  have "db' = db" and "log = []" by simp_all
  then show ?thesis using False by (simp add: frame_refl)
next
  case True
  from update_student_outcome [OF fields True run] show ?thesis
  proof (elim disjE conjE exE)
    assume "db' = db"
      and "log = [Execute (spec_update_text kvs) (spec_update_params kvs student_id),
                  Rollback, Close]"
    then show ?thesis using True by (simp add: frame_refl)
  next
    fix f
    assume f: "bind_all env (bindings kvs) = Inr f"
      and db': "db' = db\<lparr>rows := map (\<lambda>r. if id' r = int student_id then f r else r) (rows db)\<rparr>"
      and log: "log = [Execute (spec_update_text kvs) (spec_update_params kvs student_id),
                       Commit, Close]"
    have "frame (map fst kvs) (int student_id) (rows db) (rows db')"
      unfolding db' using frame_map [of "map fst kvs" f] bindings_same_but [OF f] by simp
    then show ?thesis using True by (simp add: db' log)
  qed
qed

theorem update_changes_only_supplied_fields_witness:
  "supplied [(''age'', JInt 22)] \<noteq> [] \<and>
   update_student example_env 1 (JObj [(''age'', JInt 22)]) example_db =
     (Response (message_body ''Student with ID 1 updated successfully.'') 200,
      \<lparr>rows = [bob, alice\<lparr>age := Some 22\<rparr>], next_id = 3\<rparr>,
      [Execute ''UPDATE students SET age = %s WHERE id = %s'' [JInt 22, JInt 1], Commit, Close]) \<and>
   frame [''age''] 1 [bob, alice] [bob, alice\<lparr>age := Some 22\<rparr>] \<and>
   spec_update_text [(''age'', JInt 22)] = ''UPDATE students SET age = %s WHERE id = %s'' \<and>
   spec_update_params [(''age'', JInt 22)] 1 = [JInt 22, JInt 1]"
proof -
  have fields: "supplied [(''age'', JInt 22)] \<noteq> []"
    by (simp add: supplied_def recognized_def)
  have run: "update_student example_env 1 (JObj [(''age'', JInt 22)]) example_db =
     (Response (message_body ''Student with ID 1 updated successfully.'') 200,
      \<lparr>rows = [bob, alice\<lparr>age := Some 22\<rparr>], next_id = 3\<rparr>,
      [Execute ''UPDATE students SET age = %s WHERE id = %s'' [JInt 22, JInt 1], Commit, Close])"
    by (simp add: handler_defs example_defs str_nat.simps digit_char_def)
  from update_changes_only_supplied_fields [OF fields run] fields run show ?thesis
    by (simp add: example_defs supplied_def recognized_def spec_update_text_def
          spec_update_params_def field_value_def)
qed

section \<open>C10: the statement depends on the recognized fields only\<close>

lemma supplied_cong:
  assumes "\<forall>k \<in> set recognized. map_of kvs1 k = map_of kvs2 k"
  shows "supplied kvs1 = supplied kvs2"
    and "map (field_value kvs1) (supplied kvs1) = map (field_value kvs2) (supplied kvs2)"
proof -
  have keys: "\<And>k. k \<in> set recognized \<Longrightarrow> (k \<in> set (map fst kvs1)) = (k \<in> set (map fst kvs2))"
  proof -
    fix k assume "k \<in> set recognized"
    with assms have "map_of kvs1 k = map_of kvs2 k" by blast
    then have "(map_of kvs1 k = None) = (map_of kvs2 k = None)" by simp
    then show "(k \<in> set (map fst kvs1)) = (k \<in> set (map fst kvs2))"
      by (simp add: map_of_eq_None_iff)
  qed
  show same: "supplied kvs1 = supplied kvs2"
    unfolding supplied_def by (rule filter_cong) (simp_all add: keys del: set_map)
  have "\<And>k. k \<in> set (supplied kvs1) \<Longrightarrow> field_value kvs1 k = field_value kvs2 k"
    using assms by (simp add: supplied_def field_value_def)
  then show "map (field_value kvs1) (supplied kvs1) = map (field_value kvs2) (supplied kvs2)"
    unfolding same [symmetric] by simp
qed

text \<open>
  C10. Two bodies that give the same value, or none, to each of name, email, age and
  course make \<^verbatim>\<open>update_student\<close> build the same clauses and parameters, and two PUT
  requests for the same id with such bodies send the same statements with the same
  parameters, whatever else the bodies hold and in whatever order their keys come. The
  clauses follow the fixed order name, email, age, course.
\<close>

theorem update_statement_is_canonical:
  assumes same: "\<forall>k \<in> set recognized. map_of kvs1 k = map_of kvs2 k"
  shows "update_fields (JObj kvs1) = update_fields (JObj kvs2) \<and>
         executed (snd (snd (update_student env student_id (JObj kvs1) db1))) =
         executed (snd (snd (update_student env student_id (JObj kvs2) db2))) \<and>
         update_fields (JObj kvs1) =
           Inr (map (\<lambda>k. k @ '' = %s'')
                  (filter (\<lambda>k. k \<in> set (map fst kvs1)) [''name'', ''email'', ''age'', ''course'']),
                map (field_value kvs1)
                  (filter (\<lambda>k. k \<in> set (map fst kvs1)) [''name'', ''email'', ''age'', ''course'']))"
proof -
  note eq = supplied_cong [OF same]
  have vals: "map (field_value kvs1) (supplied kvs2) = map (field_value kvs2) (supplied kvs2)"
    using eq by simp
  have fields: "update_fields (JObj kvs1) = update_fields (JObj kvs2)"
    by (simp only: update_fields_obj eq(1) vals)
  have stmt: "spec_update_text kvs1 = spec_update_text kvs2"
    and params: "spec_update_params kvs1 student_id = spec_update_params kvs2 student_id"
    by (simp_all only: spec_update_text_def spec_update_params_def eq(1) vals)
  obtain r1 d1 l1 where run1: "update_student env student_id (JObj kvs1) db1 = (r1, d1, l1)"
    by (cases "update_student env student_id (JObj kvs1) db1") auto
  obtain r2 d2 l2 where run2: "update_student env student_id (JObj kvs2) db2 = (r2, d2, l2)"
    by (cases "update_student env student_id (JObj kvs2) db2") auto
  have "executed l1 = executed l2"
    unfolding update_student_executed [OF run1] update_student_executed [OF run2]
    by (simp add: stmt params eq(1))
  moreover have "update_fields (JObj kvs1) =
           Inr (map (\<lambda>k. k @ '' = %s'')
                  (filter (\<lambda>k. k \<in> set (map fst kvs1)) [''name'', ''email'', ''age'', ''course'']),
                map (field_value kvs1)
                  (filter (\<lambda>k. k \<in> set (map fst kvs1)) [''name'', ''email'', ''age'', ''course'']))"
    using update_fields_obj [of kvs1] by (simp only: supplied_def recognized_def)
  ultimately show ?thesis using fields by (simp add: run1 run2)
qed

theorem update_statement_is_canonical_witness:
  "map (map_of [(''age'', JInt 22), (''name'', JStr ''A'')]) recognized =
   map (map_of [(''name'', JStr ''A''), (''nickname'', JStr ''Al''), (''age'', JInt 22)])
     recognized \<and>
   update_fields (JObj [(''age'', JInt 22), (''name'', JStr ''A'')]) =
     Inr ([''name = %s'', ''age = %s''], [JStr ''A'', JInt 22]) \<and>
   update_fields (JObj [(''name'', JStr ''A''), (''nickname'', JStr ''Al''), (''age'', JInt 22)]) =
     Inr ([''name = %s'', ''age = %s''], [JStr ''A'', JInt 22]) \<and>
   executed (snd (snd (update_student example_env 1
       (JObj [(''age'', JInt 22), (''name'', JStr ''A'')]) example_db))) =
   executed (snd (snd (update_student example_env 1
       (JObj [(''name'', JStr ''A''), (''nickname'', JStr ''Al''), (''age'', JInt 22)]) empty_db)))"
proof -
  have same: "\<forall>k \<in> set recognized.
      map_of [(''age'', JInt 22), (''name'', JStr ''A'')] k =
      map_of [(''name'', JStr ''A''), (''nickname'', JStr ''Al''), (''age'', JInt 22)] k"
    by (simp add: recognized_def)
  have "update_fields (JObj [(''age'', JInt 22), (''name'', JStr ''A'')]) =
     Inr ([''name = %s'', ''age = %s''], [JStr ''A'', JInt 22])"
    by (simp add: update_fields_def add_field_def)
  with update_statement_is_canonical [OF same, of example_env 1 example_db empty_db] same
  show ?thesis by simp
qed

section \<open>C3: a field that is present with null\<close>

lemma bind_column_sets:
  assumes "bind_column env col v = Inr g"
  shows "(col = ColName \<longrightarrow> to_varchar env v = Inr (name (g r))) \<and>
         (col = ColEmail \<longrightarrow> to_varchar env v = Inr (email (g r))) \<and>
         (col = ColAge \<longrightarrow> to_integer env v = Inr (age (g r))) \<and>
         (col = ColCourse \<longrightarrow> to_varchar env v = Inr (course (g r)))"
  using assms by (cases col) (auto split: sum.splits)

lemma bind_all_sets:
  assumes "bind_all env cvs = Inr f" and "distinct (map fst cvs)" and "(col, v) \<in> set cvs"
  shows "(col = ColName \<longrightarrow> to_varchar env v = Inr (name (f r))) \<and>
         (col = ColEmail \<longrightarrow> to_varchar env v = Inr (email (f r))) \<and>
         (col = ColAge \<longrightarrow> to_integer env v = Inr (age (f r))) \<and>
         (col = ColCourse \<longrightarrow> to_varchar env v = Inr (course (f r)))"
  using assms
proof (induction cvs arbitrary: f r)
  case Nil
  then show ?case by simp
next
  case (Cons cv cvs)
  obtain c0 v0 where cv: "cv = (c0, v0)" by (cases cv)
  from Cons.prems(1) cv obtain g h where
    g: "bind_column env c0 v0 = Inr g" and h: "bind_all env cvs = Inr h" and f: "f = (\<lambda>r. h (g r))"
    by (auto split: sum.splits)
  show ?case
  proof (cases "(col, v) = (c0, v0)")
    case True
    then have "col \<notin> fst ` set cvs" using Cons.prems(2) cv by auto
    with bind_all_frame [OF h, of "g r"] bind_column_sets [OF g, of r] True show ?thesis
      by (cases col) (auto simp: f)
  next
    case False
    then have "(col, v) \<in> set cvs" using Cons.prems(3) cv by auto
    moreover have "distinct (map fst cvs)" using Cons.prems(2) by simp
    ultimately show ?thesis using Cons.IH [OF h, of "g r"] by (simp add: f)
  qed
qed

lemma bound_null:
  assumes f: "bind_all env (bindings kvs) = Inr f" and v: "map_of kvs k = Some JNull"
  shows "(k = ''name'' \<longrightarrow> name (f r) = None) \<and> (k = ''email'' \<longrightarrow> email (f r) = None) \<and>
         (k = ''age'' \<longrightarrow> age (f r) = None) \<and> (k = ''course'' \<longrightarrow> course (f r) = None)"
proof (cases "k \<in> set recognized")
  case False
  then show ?thesis by (simp add: recognized_def)
next
  case True
  have "k \<in> set (map fst kvs)" using v by (metis map_of_eq_None_iff option.distinct(1) set_map)
  with True have "k \<in> set (supplied kvs)" by (simp add: supplied_def)
  then have mem: "(field_column k, JNull) \<in> set (bindings kvs)"
    using v by (force simp: bindings_def field_value_def)
  have "distinct (map fst (bindings kvs))"
    using distinct_columns [of kvs] by (simp add: bindings_def comp_def)
  from bind_all_sets [OF f this mem, of r] show ?thesis
    by (auto simp: field_column_def)
qed

lemma update_student_rows:
  assumes run: "update_student env student_id (JObj kvs) db = (resp, db', log)"
  shows "(status resp \<noteq> 200 \<and> db' = db) \<or>
         (status resp = 200 \<and>
          (\<exists>f. bind_all env (bindings kvs) = Inr f \<and>
               db' = db\<lparr>rows := map (\<lambda>r. if id' r = int student_id then f r else r) (rows db)\<rparr> \<and>
               (\<forall>r \<in> set (rows db). id' r = int student_id \<longrightarrow>
                  name (f r) \<noteq> None \<and> email (f r) \<noteq> None)) \<and>
          (\<exists>r \<in> set (rows db). id' r = int student_id))"
proof -
  consider (empty) "kvs = []" | (down) "kvs \<noteq> []" "\<not> connect_ok env"
    | (none) "kvs \<noteq> []" "connect_ok env" "supplied kvs = []"
    | (some) "connect_ok env" "supplied kvs \<noteq> []"
    by blast
  then show ?thesis
  proof cases
    case empty
    then show ?thesis using run by (auto simp: update_student_def)
  next
    case down
    then show ?thesis using run update_student_no_conn [of "JObj kvs" env student_id db]
      by (auto simp: connection_failed_def)
  next
    case none
    then show ?thesis using run update_student_no_fields [of kvs env student_id db] by auto
  next
    case some
    from update_student_outcome [OF some(2) some(1) run] show ?thesis by blast
  qed
qed

text \<open>
  C3, as the code has it. For a PUT with an object body: a recognized field that the
  body does not have leaves its column as it was, for all four fields; a field that is
  present with null is bound as the parameter \<^verbatim>\<open>NULL\<close>; for age and course the row with
  the id holds \<^verbatim>\<open>NULL\<close> in that column after an update that succeeds; for name and email
  the update never succeeds, since the columns are \<^verbatim>\<open>NOT NULL\<close>, and the table is left as
  it was.
\<close>

theorem null_overwrites_nullable_columns:
  assumes run: "update_student env student_id (JObj kvs) db = (resp, db', log)"
  shows "frame (map fst kvs) (int student_id) (rows db) (rows db') \<and>
         executed log =
           (if connect_ok env \<and> supplied kvs \<noteq> []
            then [(spec_update_text kvs,
                   map (field_value kvs) (supplied kvs) @ [JInt (int student_id)])]
            else []) \<and>
         (status resp = 200 \<longrightarrow>
            (\<exists>r' \<in> set (rows db'). id' r' = int student_id) \<and>
            (\<forall>r' \<in> set (rows db'). id' r' = int student_id \<longrightarrow>
               (map_of kvs ''age'' = Some JNull \<longrightarrow> age r' = None) \<and>
               (map_of kvs ''course'' = Some JNull \<longrightarrow> course r' = None))) \<and>
         (map_of kvs ''name'' = Some JNull \<or> map_of kvs ''email'' = Some JNull \<longrightarrow>
            status resp \<noteq> 200 \<and> db' = db)"
proof -
  have sent: "executed log =
           (if connect_ok env \<and> supplied kvs \<noteq> []
            then [(spec_update_text kvs,
                   map (field_value kvs) (supplied kvs) @ [JInt (int student_id)])]
            else [])"
    using update_student_executed [OF run] by (simp add: spec_update_params_def)
  from update_student_rows [OF run] show ?thesis
  proof (elim disjE conjE exE)
    assume "status resp \<noteq> 200" and "db' = db"
    then show ?thesis using sent by (simp add: frame_refl)
  next
    fix f
    assume ok: "status resp = 200"
      and f: "bind_all env (bindings kvs) = Inr f"
      and db': "db' = db\<lparr>rows := map (\<lambda>r. if id' r = int student_id then f r else r) (rows db)\<rparr>"
      and filled: "\<forall>r \<in> set (rows db). id' r = int student_id \<longrightarrow>
                     name (f r) \<noteq> None \<and> email (f r) \<noteq> None"
      and target: "\<exists>r \<in> set (rows db). id' r = int student_id"
    have keep: "\<And>r. id' (f r) = id' r" using bind_all_frame [OF f] by simp
    have fr: "frame (map fst kvs) (int student_id) (rows db) (rows db')"
      unfolding db' using frame_map [of "map fst kvs" f] bindings_same_but [OF f] by simp
    have there: "\<exists>r' \<in> set (rows db'). id' r' = int student_id"
    proof -
      from target obtain r where r: "r \<in> set (rows db)" "id' r = int student_id" by blast
      then have "(if id' r = int student_id then f r else r) \<in> set (rows db')"
        unfolding db' by simp
      with r(2) have "f r \<in> set (rows db')" by simp
      moreover have "id' (f r) = int student_id" by (simp add: keep r(2))
      ultimately show ?thesis by blast
    qed
    have nulls: "\<forall>r' \<in> set (rows db'). id' r' = int student_id \<longrightarrow>
               (map_of kvs ''age'' = Some JNull \<longrightarrow> age r' = None) \<and>
               (map_of kvs ''course'' = Some JNull \<longrightarrow> course r' = None)"
      unfolding db' using bound_null [OF f, of "''age''"] bound_null [OF f, of "''course''"]
      by (auto simp: keep)
    have "\<not> (map_of kvs ''name'' = Some JNull \<or> map_of kvs ''email'' = Some JNull)"
    proof
      assume "map_of kvs ''name'' = Some JNull \<or> map_of kvs ''email'' = Some JNull"
      then have "\<And>r. name (f r) = None \<or> email (f r) = None"
        using bound_null [OF f, of "''name''"] bound_null [OF f, of "''email''"] by auto
      with filled target show False by blast
    qed
    with ok fr there nulls sent show ?thesis by simp
  qed
qed


theorem null_overwrites_nullable_columns_witness:
  "update_student example_env 2 (JObj [(''age'', JNull)]) example_db =
     (Response (message_body ''Student with ID 2 updated successfully.'') 200,
      \<lparr>rows = [bob\<lparr>age := None\<rparr>, alice], next_id = 3\<rparr>,
      [Execute ''UPDATE students SET age = %s WHERE id = %s'' [JNull, JInt 2], Commit, Close]) \<and>
   age bob = Some 30 \<and>
   frame [''age''] 2 [bob, alice] [bob\<lparr>age := None\<rparr>, alice] \<and>
   (\<exists>r' \<in> set [bob\<lparr>age := None\<rparr>, alice]. id' r' = 2) \<and>
   map_of [(''age'', JNull)] ''age'' = Some JNull \<and>
   age (bob\<lparr>age := None\<rparr>) = None \<and>
   map_of [(''email'', JNull), (''course'', JStr ''Art'')] ''email'' = Some JNull \<and>
   update_student example_env 2 (JObj [(''email'', JNull), (''course'', JStr ''Art'')])
       example_db =
     (Response (error_body ''A student with this email already exists.'') 409, example_db,
      [Execute ''UPDATE students SET email = %s, course = %s WHERE id = %s''
         [JNull, JStr ''Art'', JInt 2],
       Rollback, Close])"
proof -
  have run: "update_student example_env 2 (JObj [(''age'', JNull)]) example_db =
     (Response (message_body ''Student with ID 2 updated successfully.'') 200,
      \<lparr>rows = [bob\<lparr>age := None\<rparr>, alice], next_id = 3\<rparr>,
      [Execute ''UPDATE students SET age = %s WHERE id = %s'' [JNull, JInt 2], Commit, Close])"
    by (simp add: handler_defs example_defs str_nat.simps digit_char_def)
  have refused: "update_student example_env 2
       (JObj [(''email'', JNull), (''course'', JStr ''Art'')]) example_db =
     (Response (error_body ''A student with this email already exists.'') 409, example_db,
      [Execute ''UPDATE students SET email = %s, course = %s WHERE id = %s''
         [JNull, JStr ''Art'', JInt 2],
       Rollback, Close])"
    by (simp add: handler_defs example_defs)
  from null_overwrites_nullable_columns [OF run] null_overwrites_nullable_columns [OF refused]
       run refused
  show ?thesis
    by (simp add: example_defs)
qed

text \<open>
  Against C3 as it is written: a PUT with \<^verbatim>\<open>{"name": null}\<close> for a student that exists
  does not set the name to null. The statement is refused, the answer is 409, and the
  row keeps its name.
\<close>

theorem null_name_is_refused:
  "update_student example_env 1 (JObj [(''name'', JNull)]) example_db =
     (Response (error_body ''A student with this email already exists.'') 409,
      example_db,
      [Execute ''UPDATE students SET name = %s WHERE id = %s'' [JNull, JInt 1],
       Rollback, Close]) \<and>
   alice \<in> set (rows example_db) \<and> id' alice = 1 \<and> name alice = Some ''A''"
  by (simp add: handler_defs example_defs)

section \<open>C7: a body with nothing to update\<close>




section \<open>C4: a statement that finds no row\<close>

lemma update_fields_parts_obj:
  assumes "update_fields data = Inr (query_parts, params)" and "query_parts \<noteq> []"
  shows "\<exists>kvs. data = JObj kvs"
  using assms
  by (cases data)
     (auto simp: update_fields_def add_field_def split: if_splits sum.splits bool.splits)

lemma update_rowcount_obj:
  assumes "update_rowcount env student_id data db = Some n"
  shows "\<exists>kvs. data = JObj kvs \<and> supplied kvs \<noteq> [] \<and> connect_ok env \<and> exec_fault env = None \<and>
           (\<exists>f. bind_all env (bindings kvs) = Inr f \<and>
                \<not> (\<exists>r \<in> set (filter (\<lambda>r. id' r = int student_id) (rows db)).
                      name (f r) = None \<or> email (f r) = None) \<and>
                \<not> (''email'' \<in> set (map fst kvs) \<and>
                   (\<exists>r \<in> set (filter (\<lambda>r. id' r = int student_id) (rows db)).
                      email (f r) \<in> set (map email
                        (filter (\<lambda>r. id' r \<noteq> int student_id) (rows db))))) \<and>
                n = length (filter (\<lambda>r. id' r = int student_id) (rows db)))"
proof -
  from assms obtain query_parts params where
    parts: "update_fields data = Inr (query_parts, params)" "query_parts \<noteq> []"
    and conn: "connect_ok env" and tr: "truthy data"
    by (auto simp: update_rowcount_def get_db_connection_def
          split: if_splits option.splits sum.splits prod.splits)
  from update_fields_parts_obj [OF parts] obtain kvs where data: "data = JObj kvs" by blast
  have sup: "supplied kvs \<noteq> []" using parts by (auto simp: data update_fields_obj)
  have ps: "map (field_value kvs) (supplied kvs) @ [JInt (int student_id)] =
            spec_update_params kvs student_id"
    by (simp add: spec_update_params_def)
  show ?thesis
    using assms conn tr sup
    by (auto simp: data update_rowcount_def get_db_connection_def update_fields_obj ps
          update_query_spec cur_execute_update [OF sup] exec_update_obj connect_def Let_def
          simp del: set_map set_filter
          split: option.splits sum.splits if_splits)
qed


lemma delete_rowcount_count:
  assumes "delete_rowcount env student_id db = Some n"
  shows "connect_ok env \<and> exec_fault env = None \<and>
         n = length (filter (\<lambda>r. id' r = int student_id) (rows db))"
  using assms
  by (auto simp: delete_rowcount_def get_db_connection_def cur_execute_def exec_delete_def
        connect_def Let_def insert_sql_def select_all_sql_def select_one_sql_def delete_sql_def
        split: option.splits if_splits)

text \<open>
  C4. When the \<^verbatim>\<open>UPDATE\<close> of a PUT or the \<^verbatim>\<open>DELETE\<close> of a DELETE runs and reports that
  it affected no row, the handler answers 404 with a message that names the id, rolls
  back, and leaves the server's state as it was. The count a statement reports is the
  number of rows that have the id, so zero means that no row has it.
\<close>

theorem zero_rows_is_not_found:
  "(update_rowcount env student_id data db = Some 0 \<longrightarrow>
      (\<exists>q ps. update_student env student_id data db =
         (Response (error_body (''Student with ID '' @ str_nat student_id @ '' not found.'')) 404,
          db, [Execute q ps, Rollback, Close]))) \<and>
   (delete_rowcount env student_id db = Some 0 \<longrightarrow>
      delete_student env student_id db =
        (Response (error_body (''Student with ID '' @ str_nat student_id @ '' not found.'')) 404,
         db, [Execute delete_sql [JInt (int student_id)], Rollback, Close])) \<and>
   (update_rowcount env student_id data db = Some n \<longrightarrow>
      n = length (filter (\<lambda>r. id' r = int student_id) (rows db))) \<and>
   (delete_rowcount env student_id db = Some n \<longrightarrow>
      n = length (filter (\<lambda>r. id' r = int student_id) (rows db)))"
proof (intro conjI impI)
  assume zero: "update_rowcount env student_id data db = Some 0"
  from update_rowcount_obj [OF zero] obtain kvs f where
    data: "data = JObj kvs" and sup: "supplied kvs \<noteq> []" and conn: "connect_ok env"
    and fault: "exec_fault env = None" and f: "bind_all env (bindings kvs) = Inr f"
    and none: "filter (\<lambda>r. id' r = int student_id) (rows db) = []"
    by auto
  have "update_student env student_id data db =
         (Response (error_body (''Student with ID '' @ str_nat student_id @ '' not found.'')) 404,
          db, [Execute (spec_update_text kvs) (spec_update_params kvs student_id),
               Rollback, Close])"
    unfolding data update_student_obj [OF sup conn]
    by (simp add: fault f none Let_def)
  then show "\<exists>q ps. update_student env student_id data db =
         (Response (error_body (''Student with ID '' @ str_nat student_id @ '' not found.'')) 404,
          db, [Execute q ps, Rollback, Close])"
    by blast
next
  assume zero: "delete_rowcount env student_id db = Some 0"
  from delete_rowcount_count [OF zero]
  have conn: "connect_ok env" and fault: "exec_fault env = None"
    and none: "filter (\<lambda>r. id' r = int student_id) (rows db) = []"
    by simp_all
  have keep: "filter (\<lambda>r. id' r \<noteq> int student_id) (rows db) = rows db"
    using none by (simp add: filter_empty_conv)
  show "delete_student env student_id db =
        (Response (error_body (''Student with ID '' @ str_nat student_id @ '' not found.'')) 404,
         db, [Execute delete_sql [JInt (int student_id)], Rollback, Close])"
    using conn fault none keep
    by (simp add: delete_student_def delete_student_try_def get_db_connection_def
          cur_execute_def exec_delete_def except_delete_def finally_close_def close_def
          rollback_def connect_def Let_def insert_sql_def select_all_sql_def select_one_sql_def
          delete_sql_def)
next
  assume "update_rowcount env student_id data db = Some n"
  from update_rowcount_obj [OF this]
  show "n = length (filter (\<lambda>r. id' r = int student_id) (rows db))" by blast
next
  assume "delete_rowcount env student_id db = Some n"
  from delete_rowcount_count [OF this]
  show "n = length (filter (\<lambda>r. id' r = int student_id) (rows db))" by blast
qed

theorem zero_rows_is_not_found_witness:
  "update_rowcount example_env 7 (JObj [(''course'', JStr ''Physics'')]) example_db = Some 0 \<and>
   update_student example_env 7 (JObj [(''course'', JStr ''Physics'')]) example_db =
     (Response (error_body ''Student with ID 7 not found.'') 404, example_db,
      [Execute ''UPDATE students SET course = %s WHERE id = %s'' [JStr ''Physics'', JInt 7],
       Rollback, Close]) \<and>
   delete_rowcount example_env 7 example_db = Some 0 \<and>
   delete_student example_env 7 example_db =
     (Response (error_body ''Student with ID 7 not found.'') 404, example_db,
      [Execute ''DELETE FROM students WHERE id = %s;'' [JInt 7], Rollback, Close]) \<and>
   length (filter (\<lambda>r. id' r = 7) (rows example_db)) = 0"
proof -
  have up: "update_rowcount example_env 7 (JObj [(''course'', JStr ''Physics'')]) example_db = Some 0"
    by (simp add: update_rowcount_def handler_defs example_defs)
  have del: "delete_rowcount example_env 7 example_db = Some 0"
    by (simp add: delete_rowcount_def handler_defs example_defs)
  have run: "update_student example_env 7 (JObj [(''course'', JStr ''Physics'')]) example_db =
     (Response (error_body ''Student with ID 7 not found.'') 404, example_db,
      [Execute ''UPDATE students SET course = %s WHERE id = %s'' [JStr ''Physics'', JInt 7],
       Rollback, Close])"
    by (simp add: handler_defs example_defs str_nat.simps digit_char_def)
  from zero_rows_is_not_found
         [of example_env 7 "JObj [(''course'', JStr ''Physics'')]" example_db 0] up del run
  show ?thesis
    by (simp add: str_nat.simps digit_char_def delete_sql_def error_body_def)
qed

section \<open>What an insert comes to\<close>

lemma cur_execute_insert:
  "cur_execute env insert_sql ps c =
     (case exec_fault env of
        Some e \<Rightarrow> (Inl e, c\<lparr>calls := calls c @ [Execute insert_sql ps]\<rparr>)
      | None \<Rightarrow> exec_insert env ps (c\<lparr>calls := calls c @ [Execute insert_sql ps]\<rparr>))"
  by (simp add: cur_execute_def Let_def split: option.splits)

lemma exec_insert_result:
  assumes "exec_insert env ps c = (r, c1)"
  shows "saved_rows c1 = saved_rows c \<and> calls c1 = calls c \<and> seq c \<le> seq c1 \<and>
         (case r of
            Inl e \<Rightarrow> txn_rows c1 = txn_rows c
          | Inr res \<Rightarrow>
              (\<exists>row. fetched res = [row] \<and> txn_rows c1 = txn_rows c @ [row] \<and>
                 seq c1 = seq c + 1 \<and> id' row = seq c \<and> name row \<noteq> None \<and>
                 email row \<noteq> None \<and> created_at row = Some (now env)))"
  using assms
  by (auto simp: exec_insert_def Let_def split: list.splits sum.splits if_splits)

lemma add_student_try_result:
  assumes "add_student_try env n e a k (connect db) = (r, c1)"
  shows "calls c1 = (case r of Inl x \<Rightarrow> [Execute insert_sql [n, e, a, k]]
                     | Inr resp \<Rightarrow> [Execute insert_sql [n, e, a, k], Commit]) \<and>
         next_id db \<le> seq c1 \<and>
         (case r of
            Inl x \<Rightarrow> saved_rows c1 = rows db
          | Inr resp \<Rightarrow>
              status resp = 201 \<and> seq c1 = next_id db + 1 \<and>
              (\<exists>row. saved_rows c1 = rows db @ [row] \<and> id' row = next_id db \<and>
                 name row \<noteq> None \<and> email row \<noteq> None \<and> created_at row = Some (now env)))"
proof (cases "exec_fault env")
  case (Some x)
  then show ?thesis using assms
    by (auto simp: add_student_try_def cur_execute_insert connect_def)
next
  case None
  obtain r0 c0 where ex: "exec_insert env [n, e, a, k]
      ((connect db)\<lparr>calls := calls (connect db) @ [Execute insert_sql [n, e, a, k]]\<rparr>) = (r0, c0)"
    by (cases "exec_insert env [n, e, a, k]
      ((connect db)\<lparr>calls := calls (connect db) @ [Execute insert_sql [n, e, a, k]]\<rparr>)") auto
  from exec_insert_result [OF ex] assms None ex show ?thesis
    by (auto simp: add_student_try_def cur_execute_insert connect_def commit_def
          split: sum.splits list.splits)
qed

text \<open>Whatever the body is, a POST leaves the table as it was or adds one row to it.\<close>

lemma add_student_outcome:
  assumes run: "add_student env data db = (resp, db', log)"
  shows "(status resp \<noteq> 201 \<and> rows db' = rows db \<and> next_id db \<le> next_id db') \<or>
         (status resp = 201 \<and> next_id db' = next_id db + 1 \<and>
          (\<exists>row. rows db' = rows db @ [row] \<and> id' row = next_id db \<and> name row \<noteq> None \<and>
             email row \<noteq> None \<and> created_at row = Some (now env)))"
proof -
  consider (early) "db' = db" "status resp \<noteq> 201"
    | (tried) n e a k where
        "finally_close (except_write env (add_student_try env n e a k (connect db))) =
           (resp, db', log)"
    using run
    by (auto simp: add_student_def get_db_connection_def connection_failed_def
          split: sum.splits bool.splits if_splits)
  then show ?thesis
  proof cases
    case early
    then show ?thesis by simp
  next
    case tried
    obtain r c1 where t: "add_student_try env n e a k (connect db) = (r, c1)"
      by (cases "add_student_try env n e a k (connect db)") auto
    from add_student_try_result [OF t] tried t show ?thesis
      by (cases r)
         (auto simp: except_write_def finally_close_def close_def rollback_def
            write_failure_def split: if_splits)
  qed
qed


section \<open>C9: name and email are required\<close>

lemma missing_required_obj:
  "missing_required (JObj kvs) =
     Inr (''name'' \<notin> set (map fst kvs) \<or> ''email'' \<notin> set (map fst kvs))"
  by (cases "kvs = []") (auto simp: missing_required_def split: bool.splits)

lemma py_get_obj: "py_get (JObj kvs) k = Inr (field_value kvs k)"
  by (simp add: field_value_def)

lemma add_student_obj:
  assumes "''name'' \<in> set (map fst kvs)" and "''email'' \<in> set (map fst kvs)"
  shows "add_student env (JObj kvs) db =
     (case get_db_connection env db of
        None \<Rightarrow> (connection_failed, db, [])
      | Some c \<Rightarrow>
          finally_close
            (except_write env
               (add_student_try env (field_value kvs ''name'') (field_value kvs ''email'')
                  (field_value kvs ''age'') (field_value kvs ''course'') c)))"
  using assms
  by (simp add: add_student_def missing_required_obj py_get_obj del: set_map py_get.simps)



section \<open>C2: which failures of the insert are answered 409\<close>

text \<open>
  The \<^verbatim>\<open>except\<close> clauses of \<^verbatim>\<open>add_student\<close> sort a failure of the insert by its class:
  every \<^verbatim>\<open>IntegrityError\<close> is answered 409 with the message about the email, anything
  else 500; both roll back, and no row is added.
\<close>

lemma add_student_insert_raises:
  assumes keys: "''name'' \<in> set (map fst kvs)" "''email'' \<in> set (map fst kvs)"
    and conn: "connect_ok env"
    and raises: "cur_execute env insert_sql
                   [field_value kvs ''name'', field_value kvs ''email'',
                    field_value kvs ''age'', field_value kvs ''course''] (connect db) = (Inl x, c1)"
  shows "add_student env (JObj kvs) db =
     (if is_IntegrityError x
      then Response (error_body ''A student with this email already exists.'') 409
      else Response (error_body (str_exc env x)) 500,
      \<lparr>rows = rows db, next_id = seq c1\<rparr>,
      [Execute insert_sql [field_value kvs ''name'', field_value kvs ''email'',
                           field_value kvs ''age'', field_value kvs ''course''],
       Rollback, Close])"
proof -
  let ?ps = "[field_value kvs ''name'', field_value kvs ''email'',
              field_value kvs ''age'', field_value kvs ''course'']"
  have attempt: "add_student_try env (field_value kvs ''name'') (field_value kvs ''email'')
               (field_value kvs ''age'') (field_value kvs ''course'') (connect db) = (Inl x, c1)"
    using raises by (simp add: add_student_try_def)
  from add_student_try_result [OF attempt]
  have "calls c1 = [Execute insert_sql ?ps]" and "saved_rows c1 = rows db" by simp_all
  then show ?thesis
    unfolding add_student_obj [OF keys]
    using conn attempt
    by (simp add: get_db_connection_def except_write_def write_failure_def finally_close_def
          close_def rollback_def)
qed

text \<open>
  C2 says that 409 is returned only when the email is already in use and that every
  other failure of the database is answered 500. The code does not keep to that: a POST
  with \<^verbatim>\<open>{"name": null, "email": "c@x.com"}\<close>, whose email no student has, fails on the
  \<^verbatim>\<open>NOT NULL\<close> constraint of name, which is an \<^verbatim>\<open>IntegrityError\<close> too, and is answered
  409 with the message that a student with this email already exists.
\<close>

theorem null_name_is_answered_409:
  "Some ''c@x.com'' \<notin> set (map email (rows example_db)) \<and>
   fst (add_student example_env (JObj [(''name'', JNull), (''email'', JStr ''c@x.com'')])
          example_db) =
     Response (error_body ''A student with this email already exists.'') 409 \<and>
   rows (fst (snd (add_student example_env
          (JObj [(''name'', JNull), (''email'', JStr ''c@x.com'')]) example_db))) =
     rows example_db \<and>
   snd (snd (add_student example_env (JObj [(''name'', JNull), (''email'', JStr ''c@x.com'')])
          example_db)) =
     [Execute insert_sql [JNull, JStr ''c@x.com'', JNull, JNull], Rollback, Close]"
  by (simp add: handler_defs example_defs)

section \<open>C5: the names that can be stored\<close>

lemma update_student_other:
  assumes other: "\<And>kvs. data \<noteq> JObj kvs"
    and run: "update_student env student_id data db = (resp, db', log)"
  shows "db' = db"
proof (cases "update_fields data")
  case (Inl e)
  then show ?thesis using run
    by (auto simp: update_student_def get_db_connection_def update_student_try_def
          except_write_def finally_close_def close_def rollback_def connect_def
          connection_failed_def split: if_splits)
next
  case (Inr parts)
  obtain query_parts params where p: "parts = (query_parts, params)" by (cases parts)
  have "query_parts = []"
    using update_fields_parts_obj [of data query_parts params] Inr p other by blast
  then show ?thesis using run Inr p
    by (auto simp: update_student_def get_db_connection_def update_student_try_def
          except_write_def finally_close_def close_def connect_def
          connection_failed_def split: if_splits)
qed

lemma delete_student_rows:
  assumes "delete_student env student_id db = (resp, db', log)"
  shows "next_id db' = next_id db \<and>
         (rows db' = rows db \<or> rows db' = filter (\<lambda>r. id' r \<noteq> int student_id) (rows db))"
  using assms
  by (auto simp: delete_student_def delete_student_try_def get_db_connection_def
        cur_execute_def exec_delete_def except_delete_def finally_close_def close_def
        rollback_def commit_def connect_def Let_def insert_sql_def select_all_sql_def
        select_one_sql_def delete_sql_def connection_failed_def
        split: option.splits if_splits)

lemma get_all_students_keeps:
  "get_all_students env db = (resp, db', log) \<Longrightarrow> db' = db"
  by (auto simp: get_all_students_def get_all_students_try_def get_db_connection_def
        cur_execute_def exec_select_all_def except_read_def finally_close_def close_def
        connect_def Let_def insert_sql_def select_all_sql_def
        split: option.splits if_splits)

lemma get_student_keeps:
  "get_student env student_id db = (resp, db', log) \<Longrightarrow> db' = db"
  by (auto simp: get_student_def get_student_try_def get_db_connection_def
        cur_execute_def exec_select_one_def except_read_def finally_close_def close_def
        connect_def Let_def insert_sql_def select_all_sql_def select_one_sql_def
        split: option.splits if_splits list.splits)

text \<open>A request keeps every property of rows that an insert gives and an update keeps.\<close>

lemma handle_keeps:
  assumes new: "\<And>row. name row \<noteq> None \<Longrightarrow> email row \<noteq> None \<Longrightarrow>
                  created_at row = Some (now env) \<Longrightarrow> P row"
    and upd: "\<And>r f. P r \<Longrightarrow> name (f r) \<noteq> None \<Longrightarrow> email (f r) \<noteq> None \<Longrightarrow>
                  created_at (f r) = created_at r \<Longrightarrow> P (f r)"
    and inv: "\<forall>r \<in> set (rows db). P r"
  shows "\<forall>r \<in> set (rows (fst (snd (handle env rq db)))). P r"
proof (cases rq)
  case (Post data)
  obtain resp db' log where run: "add_student env data db = (resp, db', log)"
    by (cases "add_student env data db") auto
  from add_student_outcome [OF run] inv new show ?thesis
    by (auto simp: Post run)
next
  case GetAll
  obtain resp db' log where run: "get_all_students env db = (resp, db', log)"
    by (cases "get_all_students env db") auto
  from get_all_students_keeps [OF run] inv show ?thesis by (simp add: GetAll run)
next
  case (Get student_id)
  obtain resp db' log where run: "get_student env student_id db = (resp, db', log)"
    by (cases "get_student env student_id db") auto
  from get_student_keeps [OF run] inv show ?thesis by (simp add: Get run)
next
  case (Put student_id data)
  obtain resp db' log where run: "update_student env student_id data db = (resp, db', log)"
    by (cases "update_student env student_id data db") auto
  show ?thesis
  proof (cases "\<exists>kvs. data = JObj kvs")
    case False
    then have "db' = db" using update_student_other [OF _ run] by blast
    then show ?thesis using inv by (simp add: Put run)
  next
    case True
    then obtain kvs where data: "data = JObj kvs" by blast
    from update_student_rows [OF run [unfolded data]] show ?thesis
    proof (elim disjE conjE exE)
      assume "db' = db"
      then show ?thesis using inv by (simp add: Put run)
    next
      fix f
      assume f: "bind_all env (bindings kvs) = Inr f"
        and db': "db' = db\<lparr>rows := map (\<lambda>r. if id' r = int student_id then f r else r) (rows db)\<rparr>"
        and filled: "\<forall>r \<in> set (rows db). id' r = int student_id \<longrightarrow>
                       name (f r) \<noteq> None \<and> email (f r) \<noteq> None"
      have "\<And>r. created_at (f r) = created_at r" using bind_all_frame [OF f] by simp
      with filled inv upd have "\<forall>r \<in> set (rows db). P (if id' r = int student_id then f r else r)"
        by auto
      then show ?thesis by (auto simp: Put run db')
    qed
  qed
next
  case (Delete student_id)
  obtain resp db' log where run: "delete_student env student_id db = (resp, db', log)"
    by (cases "delete_student env student_id db") auto
  from delete_student_rows [OF run] inv show ?thesis by (auto simp: Delete run)
qed

text \<open>
  C5, as the code has it. After any list of requests, started from a table in which no
  name is null (the empty table, for one), no row has a null name: the \<^verbatim>\<open>NOT NULL\<close>
  constraint refuses the insert or update that would store one. Nothing checks that a
  name is not the empty string.
\<close>

theorem stored_names_are_never_null:
  assumes "\<forall>r \<in> set (rows db). name r \<noteq> None"
  shows "\<forall>r \<in> set (rows (serve reqs db)). name r \<noteq> None"
  using assms
proof (induction reqs arbitrary: db)
  case Nil
  then show ?case by simp
next
  case (Cons q reqs)
  obtain env rq where q: "q = (env, rq)" by (cases q)
  have "\<forall>r \<in> set (rows (fst (snd (handle env rq db)))). name r \<noteq> None"
    by (rule handle_keeps [where P = "\<lambda>r. name r \<noteq> None"]) (simp_all add: Cons.prems)
  from Cons.IH [OF this] show ?case by (simp add: q)
qed

theorem stored_names_are_never_null_witness:
  "rows empty_db = [] \<and>
   rows (serve [(example_env, Post (JObj [(''name'', JStr ''C''), (''email'', JStr ''c@x.com'')])),
                (example_env, Put 1 (JObj [(''name'', JNull)]))] empty_db) =
     [\<lparr>id' = 1, name = Some ''C'', email = Some ''c@x.com'', age = None, course = None,
       created_at = Some example_time\<rparr>] \<and>
   name \<lparr>id' = 1, name = Some ''C'', email = Some ''c@x.com'', age = None, course = None,
         created_at = Some example_time\<rparr> \<noteq> None"
proof -
  have start: "\<forall>r \<in> set (rows empty_db). name r \<noteq> None" by (simp add: empty_db_def)
  have run: "rows (serve [(example_env, Post (JObj [(''name'', JStr ''C''), (''email'', JStr ''c@x.com'')])),
                (example_env, Put 1 (JObj [(''name'', JNull)]))] empty_db) =
     [\<lparr>id' = 1, name = Some ''C'', email = Some ''c@x.com'', age = None, course = None,
       created_at = Some example_time\<rparr>]"
    by (simp add: handler_defs example_defs)
  from stored_names_are_never_null [OF start,
         of "[(example_env, Post (JObj [(''name'', JStr ''C''), (''email'', JStr ''c@x.com'')])),
              (example_env, Put 1 (JObj [(''name'', JNull)]))]"] run
  show ?thesis by (simp add: empty_db_def)
qed

text \<open>
  Against C5 as it is written: a POST whose name is the empty string is accepted, and
  the row is stored with the empty name.
\<close>

theorem empty_name_is_stored:
  "add_student example_env (JObj [(''name'', JStr ''''), (''email'', JStr ''c@x.com'')]) empty_db =
     (Response (JObj [(''message'', JStr ''Student added successfully''), (''id'', JInt 1),
                      (''name'', JStr ''''), (''email'', JStr ''c@x.com'')]) 201,
      \<lparr>rows = [\<lparr>id' = 1, name = Some '''', email = Some ''c@x.com'', age = None,
                 course = None, created_at = Some example_time\<rparr>],
       next_id = 2\<rparr>,
      [Execute insert_sql [JStr '''', JStr ''c@x.com'', JNull, JNull], Commit, Close]) \<and>
   rows (serve [(example_env, Post (JObj [(''name'', JStr ''''), (''email'', JStr ''c@x.com'')]))]
           empty_db) =
     [\<lparr>id' = 1, name = Some '''', email = Some ''c@x.com'', age = None, course = None,
       created_at = Some example_time\<rparr>]"
  by (simp add: handler_defs example_defs)

section \<open>The text of a timestamp\<close>












section \<open>C6: the list of all students\<close>





section \<open>C8: one student by id\<close>









section \<open>The tables the service can reach\<close>

text \<open>
  The hypotheses of C6 and C8 on the table hold in every state the handlers can bring
  about from the empty table: ids stay distinct, and every row keeps the timestamp it
  was given when it was inserted.
\<close>

lemma handle_well_formed:
  assumes wf: "well_formed db"
  shows "well_formed (fst (snd (handle env rq db)))"
proof (cases rq)
  case (Post data)
  obtain resp db' log where run: "add_student env data db = (resp, db', log)"
    by (cases "add_student env data db") auto
  from add_student_outcome [OF run] wf show ?thesis
    by (fastforce simp: Post run well_formed_def)
next
  case GetAll
  obtain resp db' log where run: "get_all_students env db = (resp, db', log)"
    by (cases "get_all_students env db") auto
  from get_all_students_keeps [OF run] wf show ?thesis by (simp add: GetAll run)
next
  case (Get student_id)
  obtain resp db' log where run: "get_student env student_id db = (resp, db', log)"
    by (cases "get_student env student_id db") auto
  from get_student_keeps [OF run] wf show ?thesis by (simp add: Get run)
next
  case (Put student_id data)
  obtain resp db' log where run: "update_student env student_id data db = (resp, db', log)"
    by (cases "update_student env student_id data db") auto
  show ?thesis
  proof (cases "\<exists>kvs. data = JObj kvs")
    case False
    then have "db' = db" using update_student_other [OF _ run] by blast
    then show ?thesis using wf by (simp add: Put run)
  next
    case True
    then obtain kvs where data: "data = JObj kvs" by blast
    from update_student_rows [OF run [unfolded data]] show ?thesis
    proof (elim disjE conjE exE)
      assume "db' = db"
      then show ?thesis using wf by (simp add: Put run)
    next
      fix f
      assume f: "bind_all env (bindings kvs) = Inr f"
        and db': "db' = db\<lparr>rows := map (\<lambda>r. if id' r = int student_id then f r else r) (rows db)\<rparr>"
      have keep: "\<And>r. id' (f r) = id' r" using bind_all_frame [OF f] by simp
      have "map id' (rows db') = map id' (rows db)"
        unfolding db' by (simp add: keep comp_def cong: if_cong)
      moreover have "next_id db' = next_id db" unfolding db' by simp
      ultimately have "well_formed db'"
        using wf unfolding well_formed_def set_map [symmetric]
        by (metis (no_types, lifting) image_iff imageI list.set_map)
      then show ?thesis by (simp add: Put run)
    qed
  qed
next
  case (Delete student_id)
  obtain resp db' log where run: "delete_student env student_id db = (resp, db', log)"
    by (cases "delete_student env student_id db") auto
  from delete_student_rows [OF run] wf show ?thesis
    by (auto simp: Delete run well_formed_def distinct_map_filter)
qed

lemma serve_well_formed: "well_formed db \<Longrightarrow> well_formed (serve reqs db)"
proof (induction reqs arbitrary: db)
  case Nil
  then show ?case by simp
next
  case (Cons q reqs)
  obtain env rq where q: "q = (env, rq)" by (cases q)
  from Cons.IH [OF handle_well_formed [OF Cons.prems, of env rq]] show ?case by (simp add: q)
qed

lemma empty_db_well_formed: "well_formed empty_db"
  by (simp add: well_formed_def empty_db_def)

lemma serve_created_at:
  assumes "\<forall>r \<in> set (rows db). created_at r \<noteq> None"
  shows "\<forall>r \<in> set (rows (serve reqs db)). created_at r \<noteq> None"
  using assms
proof (induction reqs arbitrary: db)
  case Nil
  then show ?case by simp
next
  case (Cons q reqs)
  obtain env rq where q: "q = (env, rq)" by (cases q)
  have "\<forall>r \<in> set (rows (fst (snd (handle env rq db)))). created_at r \<noteq> None"
    by (rule handle_keeps [where P = "\<lambda>r. created_at r \<noteq> None"]) (simp_all add: Cons.prems)
  from Cons.IH [OF this] show ?case by (simp add: q)
qed

section \<open>Bodies that are not objects\<close>

text \<open>
  The properties above speak of the keys of a body, so of a body that is a JSON object
  (or of no body). For the record, what the handlers do with a body that is a number:
  \<^verbatim>\<open>'name' in data\<close> raises \<^verbatim>\<open>TypeError\<close>. In \<^verbatim>\<open>add_student\<close> the test stands outside
  the \<^verbatim>\<open>try\<close> and the exception leaves the handler; in \<^verbatim>\<open>update_student\<close> it is caught
  and answered 500. Nothing is stored in either case.
\<close>

lemma add_student_number:
  "n \<noteq> 0 \<Longrightarrow> add_student env (JInt n) db = (Unhandled TypeError, db, [])"
  by (simp add: add_student_def missing_required_def)

lemma update_student_number:
  assumes "n \<noteq> 0" and "connect_ok env"
  shows "update_student env student_id (JInt n) db =
     (Response (error_body (str_exc env TypeError)) 500, db, [Rollback, Close])"
  using assms
  by (simp add: update_student_def get_db_connection_def update_student_try_def
        update_fields_def add_field_def except_write_def write_failure_def finally_close_def
        close_def rollback_def connect_def)

end
